theory Spec2Isabelle
  imports Complex_Main "HOL-Library.Sublist"
begin

section \<open>Python text operations used by the manifest sync\<close>

text \<open>
  Python strings are modelled as \<open>string\<close>; a character stands for a code point
  below 256.  \<open>str.strip()\<close> removes the characters for which \<open>str.isspace\<close>
  holds (in this range: tab, line feed, vertical tab, form feed, carriage return,
  the separators 28 to 31, space, 133 and 160), the pattern \<open>\D\<close> of \<open>re\<close> removes
  everything but the decimal digits (in this range: 0 to 9), and \<open>str.lower()\<close>
  maps A-Z and the upper-case letters 192 to 222 (without 215) 32 places up.
\<close>

definition is_space :: "char \<Rightarrow> bool" where
  "is_space c = (of_char c \<in> set [9, 10, 11, 12, 13, 28, 29, 30, 31, 32, 133, 160 :: nat])"

definition is_digit :: "char \<Rightarrow> bool" where
  "is_digit c = (c \<in> set ''0123456789'')"

definition strip :: "string \<Rightarrow> string" where
  "strip s = rev (dropWhile is_space (rev (dropWhile is_space s)))"

definition lower_char :: "char \<Rightarrow> char" where
  "lower_char c =
     (let n = (of_char c :: nat)
      in if (65 \<le> n \<and> n \<le> 90) \<or> (192 \<le> n \<and> n \<le> 222 \<and> n \<noteq> 215)
         then char_of (n + 32) else c)"

definition lower :: "string \<Rightarrow> string" where
  "lower s = map lower_char s"

text \<open>\<open>s.endswith(t)\<close> is \<open>suffix t s\<close>; \<open>t in s\<close> on strings is \<open>sublist t s\<close>.\<close>

definition endswith :: "string \<Rightarrow> string \<Rightarrow> bool" where
  "endswith s t = suffix t s"

text \<open>\<open>re.sub(r'\D', '', s)\<close>: the digits of \<open>s\<close>, in order.\<close>

definition digits_only :: "string \<Rightarrow> string" where
  "digits_only s = filter is_digit s"

text \<open>
  \<open>s.split(sep)\<close> for a non-empty separator: the text is cut at the occurrences of
  \<open>sep\<close> found from left to right, without overlap.
\<close>

function split_on :: "string \<Rightarrow> string \<Rightarrow> string list" where
  "split_on sep [] = [[]]"
| "split_on sep (c # cs) =
     (if sep \<noteq> [] \<and> prefix sep (c # cs)
      then [] # split_on sep (drop (length sep) (c # cs))
      else (case split_on sep cs of
              [] \<Rightarrow> [[c]]
            | p # ps \<Rightarrow> (c # p) # ps))"
  by pat_completeness auto
termination
  by (relation "measure (\<lambda>(sep, s). length s)") (auto simp: neq_Nil_conv)

text \<open>
  \<open>s.replace(old, "")\<close> for a non-empty \<open>old\<close>: every occurrence found from left
  to right, without overlap, is removed; the result is not scanned again.
\<close>

function remove_all :: "string \<Rightarrow> string \<Rightarrow> string" where
  "remove_all old [] = []"
| "remove_all old (c # cs) =
     (if old \<noteq> [] \<and> prefix old (c # cs)
      then remove_all old (drop (length old) (c # cs))
      else c # remove_all old cs)"
  by pat_completeness auto
termination
  by (relation "measure (\<lambda>(old, s). length s)") (auto simp: neq_Nil_conv)

section \<open>Python numbers\<close>

text \<open>
  A Python \<open>float\<close> is a finite value, an infinity or NaN.  Finite values are kept
  as exact rationals: the rounding of the binary format, its overflow to infinity
  and the sign of zero are left out, the special values and every comparison and
  product the program makes with them are kept.  A Python \<open>int\<close> is an \<open>int\<close>.
\<close>

datatype pyfloat = Fin rat | PInf | NInf | NaN

datatype error = ValueError | TypeError | OverflowError | ZeroDivisionError

fun is_finite :: "pyfloat \<Rightarrow> bool" where
  "is_finite (Fin x) = True"
| "is_finite _ = False"

text \<open>\<open>a > b\<close>, \<open>a >= b\<close> and \<open>a == b\<close> on floats; every comparison with NaN is false.\<close>

fun fgt :: "pyfloat \<Rightarrow> pyfloat \<Rightarrow> bool" where
  "fgt NaN b = False"
| "fgt a NaN = False"
| "fgt (Fin x) (Fin y) = (x > y)"
| "fgt PInf b = (b \<noteq> PInf)"
| "fgt NInf b = False"
| "fgt (Fin x) PInf = False"
| "fgt (Fin x) NInf = True"

fun feq :: "pyfloat \<Rightarrow> pyfloat \<Rightarrow> bool" where
  "feq NaN b = False"
| "feq a NaN = False"
| "feq a b = (a = b)"

definition fge :: "pyfloat \<Rightarrow> pyfloat \<Rightarrow> bool" where
  "fge a b = (fgt a b \<or> feq a b)"

text \<open>\<open>a * b\<close> on floats.\<close>

definition inf_of_sign :: "rat \<Rightarrow> pyfloat" where
  "inf_of_sign x = (if x > 0 then PInf else if x < 0 then NInf else NaN)"

fun fsign :: "pyfloat \<Rightarrow> rat" where
  "fsign (Fin x) = sgn x"
| "fsign PInf = 1"
| "fsign NInf = - 1"
| "fsign NaN = 0"

fun fmul :: "pyfloat \<Rightarrow> pyfloat \<Rightarrow> pyfloat" where
  "fmul NaN b = NaN"
| "fmul a NaN = NaN"
| "fmul (Fin x) (Fin y) = Fin (x * y)"
| "fmul a b = inf_of_sign (fsign a * fsign b)"

text \<open>\<open>a + b\<close> on floats.\<close>

fun fadd :: "pyfloat \<Rightarrow> pyfloat \<Rightarrow> pyfloat" where
  "fadd NaN b = NaN"
| "fadd a NaN = NaN"
| "fadd (Fin x) (Fin y) = Fin (x + y)"
| "fadd (Fin x) b = b"
| "fadd a (Fin y) = a"
| "fadd a b = (if a = b then a else NaN)"

text \<open>
  \<open>a / b\<close> on floats: a zero divisor raises \<open>ZeroDivisionError\<close>, whatever the
  dividend is.
\<close>

fun fdiv :: "pyfloat \<Rightarrow> pyfloat \<Rightarrow> error + pyfloat" where
  "fdiv a (Fin y) =
     (if y = 0 then Inl ZeroDivisionError
      else (case a of Fin x \<Rightarrow> Inr (Fin (x / y))
                    | NaN \<Rightarrow> Inr NaN
                    | _ \<Rightarrow> Inr (inf_of_sign (fsign a * sgn y))))"
| "fdiv a NaN = Inr NaN"
| "fdiv (Fin x) b = Inr (Fin 0)"
| "fdiv a b = Inr NaN"

text \<open>\<open>int(f)\<close> on a float: truncation toward zero; an infinity raises
  \<open>OverflowError\<close>, NaN raises \<open>ValueError\<close>.\<close>

definition trunc :: "rat \<Rightarrow> int" where
  "trunc x = (if x \<ge> 0 then \<lfloor>x\<rfloor> else \<lceil>x\<rceil>)"

fun py_int :: "pyfloat \<Rightarrow> error + int" where
  "py_int (Fin x) = Inr (trunc x)"
| "py_int NaN = Inl ValueError"
| "py_int _ = Inl OverflowError"

section \<open>Conversions between text and numbers\<close>

text \<open>\<open>str(i)\<close> on an \<open>int\<close>: its decimal digits, with a minus sign when negative.\<close>

definition digit_char :: "nat \<Rightarrow> char" where
  "digit_char d = ''0123456789'' ! d"

function str_nat :: "nat \<Rightarrow> string" where
  "str_nat n = (if n < 10 then [digit_char n] else str_nat (n div 10) @ [digit_char (n mod 10)])"
  by pat_completeness auto
termination
  by (relation "measure (\<lambda>n. n)") auto

definition str_int :: "int \<Rightarrow> string" where
  "str_int i = (if i < 0 then CHR ''-'' # str_nat (nat (- i)) else str_nat (nat i))"

text \<open>
  \<open>str(f)\<close> on a \<open>float\<close>: an integral value below \<open>10^16\<close> is printed with its
  digits and \<open>.0\<close>, the special values by name.  The shortest-digits printing of
  the other finite values belongs to the interpreter and is the parameter \<open>fr\<close>.
\<close>

fun str_float :: "(rat \<Rightarrow> string) \<Rightarrow> pyfloat \<Rightarrow> string" where
  "str_float fr (Fin x) =
     (if of_int \<lfloor>x\<rfloor> = x \<and> \<bar>x\<bar> < 10 ^ 16 then str_int \<lfloor>x\<rfloor> @ ''.0'' else fr x)"
| "str_float fr PInf = ''inf''"
| "str_float fr NInf = ''-inf''"
| "str_float fr NaN = ''nan''"

text \<open>
  \<open>float(s)\<close> on text.  The text is stripped; after an optional sign it is
  \<open>inf\<close>, \<open>infinity\<close> or \<open>nan\<close> in any case, or a decimal number: digit groups
  (single underscores allowed between digits), an optional point and an optional
  exponent.  Anything else raises \<open>ValueError\<close>, here \<open>None\<close>.
\<close>

fun more_digits :: "string \<Rightarrow> string \<times> string" where
  "more_digits [] = ([], [])"
| "more_digits (c # cs) =
     (if is_digit c then (case more_digits cs of (ds, r) \<Rightarrow> (c # ds, r))
      else if c = CHR ''_'' \<and> cs \<noteq> [] \<and> is_digit (hd cs) then more_digits cs
      else ([], c # cs))"

definition digitpart :: "string \<Rightarrow> (string \<times> string) option" where
  "digitpart s =
     (case s of
        [] \<Rightarrow> None
      | c # cs \<Rightarrow> if is_digit c then (case more_digits cs of (ds, r) \<Rightarrow> Some (c # ds, r))
                 else None)"

definition number :: "string \<Rightarrow> (string \<times> string \<times> string) option" where
  "number s =
     (case digitpart s of
        Some (ip, r) \<Rightarrow>
          (case r of
             [] \<Rightarrow> Some (ip, [], [])
           | c # r' \<Rightarrow>
               if c = CHR ''.''
               then (case digitpart r' of
                       Some (fp, r'') \<Rightarrow> Some (ip, fp, r'')
                     | None \<Rightarrow> Some (ip, [], r'))
               else Some (ip, [], r))
      | None \<Rightarrow>
          (case s of
             [] \<Rightarrow> None
           | c # r' \<Rightarrow>
               if c = CHR ''.''
               then (case digitpart r' of
                       Some (fp, r'') \<Rightarrow> Some ([], fp, r'')
                     | None \<Rightarrow> None)
               else None))"

definition nat_of_digits :: "string \<Rightarrow> nat" where
  "nat_of_digits ds = foldl (\<lambda>n c. 10 * n + (of_char c - 48)) 0 ds"

definition exponent :: "string \<Rightarrow> int option" where
  "exponent r =
     (case r of
        [] \<Rightarrow> Some 0
      | c # r' \<Rightarrow>
          if c = CHR ''e'' \<or> c = CHR ''E''
          then (let neg = (r' \<noteq> [] \<and> hd r' = CHR ''-'');
                    r'' = (if r' \<noteq> [] \<and> (hd r' = CHR ''-'' \<or> hd r' = CHR ''+'') then tl r' else r')
                in case digitpart r'' of
                     Some (ds, []) \<Rightarrow> Some (if neg then - int (nat_of_digits ds) else int (nat_of_digits ds))
                   | _ \<Rightarrow> None)
          else None)"

definition pow10 :: "int \<Rightarrow> rat" where
  "pow10 k = (if k \<ge> 0 then 10 ^ nat k else 1 / 10 ^ nat (- k))"

definition float_of_str :: "string \<Rightarrow> pyfloat option" where
  "float_of_str s =
     (let t = strip s;
          neg = (t \<noteq> [] \<and> hd t = CHR ''-'');
          body = (if t \<noteq> [] \<and> (hd t = CHR ''-'' \<or> hd t = CHR ''+'') then tl t else t)
      in if lower body = ''inf'' \<or> lower body = ''infinity'' then Some (if neg then NInf else PInf)
         else if lower body = ''nan'' then Some NaN
         else (case number body of
                 None \<Rightarrow> None
               | Some (ip, fp, r) \<Rightarrow>
                   (case exponent r of
                      None \<Rightarrow> None
                    | Some e \<Rightarrow>
                        Some (Fin ((if neg then - 1 else 1) * of_nat (nat_of_digits (ip @ fp))
                                    * pow10 (e - int (length fp)))))))"

section \<open>Spreadsheet cells\<close>

text \<open>
  A cell read with \<open>values_only=True\<close> is \<open>None\<close>, text, an integer, a float or a
  boolean.  A row is the list of its cells, a sheet the list of its rows, a
  workbook the list of its sheets.
\<close>

datatype cell = CNone | CStr string | CInt int | CFloat pyfloat | CBool bool

type_synonym row = "cell list"
type_synonym sheet = "row list"

fun truthy :: "cell \<Rightarrow> bool" where
  "truthy CNone = False"
| "truthy (CStr s) = (s \<noteq> [])"
| "truthy (CInt i) = (i \<noteq> 0)"
| "truthy (CFloat f) = (f \<noteq> Fin 0)"
| "truthy (CBool b) = b"

fun str_cell :: "(rat \<Rightarrow> string) \<Rightarrow> cell \<Rightarrow> string" where
  "str_cell fr CNone = ''None''"
| "str_cell fr (CStr s) = s"
| "str_cell fr (CInt i) = str_int i"
| "str_cell fr (CFloat f) = str_float fr f"
| "str_cell fr (CBool b) = (if b then ''True'' else ''False'')"

text \<open>\<open>float(v)\<close> on a cell value.\<close>

fun py_float :: "cell \<Rightarrow> error + pyfloat" where
  "py_float CNone = Inl TypeError"
| "py_float (CStr s) = (case float_of_str s of None \<Rightarrow> Inl ValueError | Some f \<Rightarrow> Inr f)"
| "py_float (CInt i) = Inr (Fin (of_int i))"
| "py_float (CFloat f) = Inr f"
| "py_float (CBool b) = Inr (Fin (if b then 1 else 0))"

text \<open>
  \<open>try: ... except (ValueError, TypeError): ...\<close>: the two errors are replaced
  by the handler's value, any other error goes on to the caller.
\<close>

definition catching :: "error + 'a \<Rightarrow> 'a \<Rightarrow> error + 'a" where
  "catching r d =
     (case r of
        Inl e \<Rightarrow> if e = ValueError \<or> e = TypeError then Inr d else Inl e
      | Inr v \<Rightarrow> Inr v)"

section \<open>Order metadata (load_orders)\<close>

text \<open>
  An item and an order of \<open>orders.json\<close>, after JSON decoding.  A key that is
  absent is held at the default that \<open>.get\<close> names for it (\<open>0\<close>, the empty text,
  the empty list); prices are JSON numbers.
\<close>

record order_item =
  price :: pyfloat
  msrp :: pyfloat
  item_count :: int
  title :: string
  pallet_ids :: "string list"

record json_order =
  jo_order_id :: string
  jo_date :: string
  jo_items :: "order_item list"

record order_meta =
  date :: string
  total_cost :: pyfloat
  total_msrp :: pyfloat
  total_item_count :: int
  pallet_brands :: "string \<rightharpoonup> string"
  items :: "order_item list"

text \<open>\<open>parts = title.split(" - "); brands = parts[1] if len(parts) >= 3 else ""\<close>\<close>

definition brands_of_title :: "string \<Rightarrow> string" where
  "brands_of_title t =
     (let parts = split_on '' - '' t in if length parts \<ge> 3 then parts ! 1 else [])"

text \<open>The inner loop \<open>for pid in item.get("pallet_ids", []): pallet_brands[pid] = brands\<close>.\<close>

definition attach_item :: "(string \<rightharpoonup> string) \<Rightarrow> order_item \<Rightarrow> (string \<rightharpoonup> string)" where
  "attach_item pb item = foldl (\<lambda>m pid. m(pid \<mapsto> brands_of_title (title item))) pb (pallet_ids item)"

definition build_pallet_brands :: "order_item list \<Rightarrow> (string \<rightharpoonup> string)" where
  "build_pallet_brands its = foldl attach_item Map.empty its"

text \<open>\<open>sum(...)\<close> starts from the integer 0.\<close>

definition fsum :: "pyfloat list \<Rightarrow> pyfloat" where
  "fsum xs = foldl fadd (Fin 0) xs"

definition meta_of_order :: "json_order \<Rightarrow> order_meta" where
  "meta_of_order order =
     \<lparr> date = jo_date order,
       total_cost = fsum (map price (jo_items order)),
       total_msrp = fsum (map msrp (jo_items order)),
       total_item_count = sum_list (map item_count (jo_items order)),
       pallet_brands = build_pallet_brands (jo_items order),
       items = jo_items order \<rparr>"

text \<open>
  \<open>load_orders\<close>: \<open>None\<close> stands for a missing \<open>orders.json\<close>; an order without
  identifier is skipped; a later order with the same identifier replaces an
  earlier one.
\<close>

definition load_orders :: "json_order list option \<Rightarrow> (string \<rightharpoonup> order_meta)" where
  "load_orders data =
     (case data of
        None \<Rightarrow> Map.empty
      | Some orders \<Rightarrow>
          foldl (\<lambda>orders_map order.
                   if jo_order_id order = [] then orders_map
                   else orders_map(jo_order_id order \<mapsto> meta_of_order order))
                Map.empty orders)"

section \<open>The manifest parser (parse_manifest_xlsx)\<close>

definition EXPECTED_HEADERS :: "string list" where
  "EXPECTED_HEADERS =
     [''listing id'', ''listing title'', ''category'', ''product name'',
      ''upc'', ''asin'', ''quantity'', ''orig. retail'', ''total orig. retail'', ''stock image'']"

record manifest_record =
  order_id :: string
  listing_id :: string
  listing_title :: string
  category :: string
  product_name :: string
  upc :: string
  asin :: string
  quantity :: int
  unit_retail :: pyfloat
  total_retail :: pyfloat
  order_date :: string
  line_item_brands :: string
  allocated_cogs_per_unit :: pyfloat

text \<open>\<open>cogs_ratio = total_cost / total_msrp if total_msrp > 0 else 0\<close>\<close>

definition cogs_ratio :: "order_meta \<Rightarrow> error + pyfloat" where
  "cogs_ratio m =
     (if fgt (total_msrp m) (Fin 0) then fdiv (total_cost m) (total_msrp m) else Inr (Fin 0))"

subsection \<open>Header row and column map\<close>

text \<open>\<open>str(cell).strip().lower()\<close>\<close>

definition cell_text :: "(rat \<Rightarrow> string) \<Rightarrow> cell \<Rightarrow> string" where
  "cell_text fr c = lower (strip (str_cell fr c))"

text \<open>
  \<open>row and any(str(cell).strip().lower() in EXPECTED_HEADERS for cell in row if cell)\<close>
\<close>

definition is_header_row :: "(rat \<Rightarrow> string) \<Rightarrow> row \<Rightarrow> bool" where
  "is_header_row fr r =
     (r \<noteq> [] \<and> list_ex (\<lambda>c. cell_text fr c \<in> set EXPECTED_HEADERS) (filter truthy r))"

text \<open>
  The scan \<open>for i, row in enumerate(sheet_rows)\<close> with its \<open>break\<close>: the index of the
  first header row and \<open>header_row\<close>, or \<open>None\<close> when the loop ends without one.
\<close>

fun find_header_from :: "(rat \<Rightarrow> string) \<Rightarrow> nat \<Rightarrow> sheet \<Rightarrow> (nat \<times> string list) option" where
  "find_header_from fr i [] = None"
| "find_header_from fr i (r # rest) =
     (if is_header_row fr r
      then Some (i, map (\<lambda>c. if truthy c then cell_text fr c else []) r)
      else find_header_from fr (Suc i) rest)"

definition find_header :: "(rat \<Rightarrow> string) \<Rightarrow> sheet \<Rightarrow> (nat \<times> string list) option" where
  "find_header fr sheet_rows = find_header_from fr 0 sheet_rows"

text \<open>The \<open>if\<close>/\<open>elif\<close> chain that maps one header cell, in the order of the source.\<close>

definition map_column :: "(string \<rightharpoonup> nat) \<Rightarrow> nat \<times> string \<Rightarrow> (string \<rightharpoonup> nat)" where
  "map_column col_map jh =
     (case jh of (j, h) \<Rightarrow>
        if sublist ''listing id'' h then col_map(''listing_id'' \<mapsto> j)
        else if sublist ''listing title'' h then col_map(''listing_title'' \<mapsto> j)
        else if sublist ''category'' h then col_map(''category'' \<mapsto> j)
        else if sublist ''product name'' h then col_map(''product_name'' \<mapsto> j)
        else if h = ''upc'' then col_map(''upc'' \<mapsto> j)
        else if h = ''asin'' then col_map(''asin'' \<mapsto> j)
        else if h = ''quantity'' then col_map(''quantity'' \<mapsto> j)
        else if ''orig. retail'' = h \<or> h = ''orig. retail'' then col_map(''unit_retail'' \<mapsto> j)
        else if sublist ''total orig'' h then col_map(''total_retail'' \<mapsto> j)
        else col_map)"

definition build_col_map :: "string list \<Rightarrow> (string \<rightharpoonup> nat)" where
  "build_col_map header_row = foldl map_column Map.empty (List.enumerate 0 header_row)"

text \<open>The local function \<open>get_val(key, default)\<close> of the row loop.\<close>

definition get_val :: "(string \<rightharpoonup> nat) \<Rightarrow> row \<Rightarrow> string \<Rightarrow> cell \<Rightarrow> cell" where
  "get_val col_map r key dflt =
     (case col_map key of
        None \<Rightarrow> dflt
      | Some idx \<Rightarrow>
          if idx \<ge> length r then dflt
          else (case r ! idx of CNone \<Rightarrow> dflt | v \<Rightarrow> v))"

subsection \<open>Field normalisation\<close>

text \<open>\<open>upc = str(upc_raw).strip() if upc_raw else ""\<close>\<close>

definition upc_text :: "(rat \<Rightarrow> string) \<Rightarrow> cell \<Rightarrow> string" where
  "upc_text fr upc_raw = (if truthy upc_raw then strip (str_cell fr upc_raw) else [])"

text \<open>\<open>if upc.endswith(".0"): upc = upc[:-2]\<close>\<close>

definition drop_dot_zero :: "string \<Rightarrow> string" where
  "drop_dot_zero u = (if endswith u ''.0'' then take (length u - 2) u else u)"

text \<open>The rest of the UPC cleaning: the digits when there are any, else the text.\<close>

definition clean_upc :: "string \<Rightarrow> string" where
  "clean_upc u0 =
     (let u = drop_dot_zero u0;
          upc_clean = digits_only u
      in if length upc_clean = 12 \<or> length upc_clean = 13 then upc_clean
         else if upc_clean \<noteq> [] then upc_clean
         else u)"

definition upc_of_cell :: "(rat \<Rightarrow> string) \<Rightarrow> cell \<Rightarrow> string" where
  "upc_of_cell fr upc_raw = clean_upc (upc_text fr upc_raw)"

text \<open>\<open>quantity = int(float(get_val("quantity", 1)))\<close>, 1 on ValueError or TypeError.\<close>

definition quantity_of :: "cell \<Rightarrow> error + int" where
  "quantity_of v =
     catching (case py_float v of Inl e \<Rightarrow> Inl e | Inr f \<Rightarrow> py_int f) 1"

text \<open>\<open>unit_retail = float(get_val("unit_retail", 0))\<close>, 0.0 on ValueError or TypeError.\<close>

definition unit_retail_of :: "cell \<Rightarrow> error + pyfloat" where
  "unit_retail_of v = catching (py_float v) (Fin 0)"

text \<open>
  \<open>total_retail = float(get_val("total_retail", 0))\<close>, \<open>unit_retail * quantity\<close> on
  ValueError or TypeError, and then the override
  \<open>if total_retail == 0 and unit_retail > 0: total_retail = unit_retail * quantity\<close>.
\<close>

definition total_retail_of :: "cell \<Rightarrow> pyfloat \<Rightarrow> int \<Rightarrow> error + pyfloat" where
  "total_retail_of v u q =
     (case catching (py_float v) (fmul u (Fin (of_int q))) of
        Inl e \<Rightarrow> Inl e
      | Inr t \<Rightarrow>
          Inr (if feq t (Fin 0) \<and> fgt u (Fin 0) then fmul u (Fin (of_int q)) else t))"

text \<open>
  The body of the loop over the data rows: \<open>Inr None\<close> is \<open>continue\<close>, \<open>Inr (Some r)\<close>
  is \<open>rows.append(r)\<close>, \<open>Inl e\<close> is an exception that leaves the function.
\<close>

definition is_blank_row :: "(rat \<Rightarrow> string) \<Rightarrow> row \<Rightarrow> bool" where
  "is_blank_row fr r = (r = [] \<or> list_all (\<lambda>c. c = CNone \<or> strip (str_cell fr c) = []) r)"

definition parse_row ::
  "(rat \<Rightarrow> string) \<Rightarrow> (string \<rightharpoonup> nat) \<Rightarrow> string \<Rightarrow> order_meta \<Rightarrow> pyfloat \<Rightarrow> row
     \<Rightarrow> error + manifest_record option" where
  "parse_row fr col_map oid m ratio r =
     (if is_blank_row fr r then Inr None
      else
        let lid = strip (str_cell fr (get_val col_map r ''listing_id'' (CStr [])));
            pname = strip (str_cell fr (get_val col_map r ''product_name'' (CStr [])))
        in if pname = [] \<or> lower pname = ''product name'' then Inr None
           else
             let u_p_c = upc_of_cell fr (get_val col_map r ''upc'' (CStr []));
                 a_s = (if truthy (get_val col_map r ''asin'' CNone)
                        then strip (str_cell fr (get_val col_map r ''asin'' (CStr []))) else [])
             in case quantity_of (get_val col_map r ''quantity'' (CInt 1)) of
                  Inl e \<Rightarrow> Inl e
                | Inr q \<Rightarrow>
                    (case unit_retail_of (get_val col_map r ''unit_retail'' (CInt 0)) of
                       Inl e \<Rightarrow> Inl e
                     | Inr u \<Rightarrow>
                         (case total_retail_of (get_val col_map r ''total_retail'' (CInt 0)) u q of
                            Inl e \<Rightarrow> Inl e
                          | Inr t \<Rightarrow>
                              Inr (Some
                                \<lparr> order_id = oid,
                                  listing_id = lid,
                                  listing_title = strip (str_cell fr (get_val col_map r ''listing_title'' (CStr []))),
                                  category = strip (str_cell fr (get_val col_map r ''category'' (CStr []))),
                                  product_name = pname,
                                  upc = u_p_c,
                                  asin = a_s,
                                  quantity = q,
                                  unit_retail = u,
                                  total_retail = t,
                                  order_date = date m,
                                  line_item_brands = (case pallet_brands m lid of None \<Rightarrow> [] | Some b \<Rightarrow> b),
                                  allocated_cogs_per_unit = fmul u ratio \<rparr>))))"

text \<open>
  A loop that extends \<open>rows\<close> with what each element yields and stops at the first
  exception.
\<close>

fun collect :: "('a \<Rightarrow> error + 'b list) \<Rightarrow> 'a list \<Rightarrow> error + 'b list" where
  "collect f [] = Inr []"
| "collect f (x # xs) =
     (case f x of
        Inl e \<Rightarrow> Inl e
      | Inr ys \<Rightarrow> (case collect f xs of Inl e \<Rightarrow> Inl e | Inr zs \<Rightarrow> Inr (ys @ zs)))"

definition row_records ::
  "(rat \<Rightarrow> string) \<Rightarrow> (string \<rightharpoonup> nat) \<Rightarrow> string \<Rightarrow> order_meta \<Rightarrow> pyfloat \<Rightarrow> row
     \<Rightarrow> error + manifest_record list" where
  "row_records fr col_map oid m ratio r =
     (case parse_row fr col_map oid m ratio r of
        Inl e \<Rightarrow> Inl e
      | Inr None \<Rightarrow> Inr []
      | Inr (Some x) \<Rightarrow> Inr [x])"

text \<open>The body of the loop over the sheets.\<close>

definition parse_sheet ::
  "(rat \<Rightarrow> string) \<Rightarrow> string \<Rightarrow> order_meta \<Rightarrow> pyfloat \<Rightarrow> sheet \<Rightarrow> error + manifest_record list" where
  "parse_sheet fr oid m ratio sheet_rows =
     (if sheet_rows = [] then Inr []
      else case find_header fr sheet_rows of
             None \<Rightarrow> Inr []
           | Some (header_idx, header_row) \<Rightarrow>
               if header_row = [] then Inr []
               else collect (row_records fr (build_col_map header_row) oid m ratio)
                            (drop (header_idx + 1) sheet_rows))"

text \<open>
  \<open>parse_manifest_xlsx\<close>: \<open>None\<close> stands for a file that \<open>load_workbook\<close> cannot
  read, which yields no rows.
\<close>

definition parse_manifest_xlsx ::
  "(rat \<Rightarrow> string) \<Rightarrow> sheet list option \<Rightarrow> string \<Rightarrow> order_meta \<Rightarrow> error + manifest_record list" where
  "parse_manifest_xlsx fr wb oid m =
     (case wb of
        None \<Rightarrow> Inr []
      | Some sheets \<Rightarrow>
          (case cogs_ratio m of
             Inl e \<Rightarrow> Inl e
           | Inr ratio \<Rightarrow> collect (parse_sheet fr oid m ratio) sheets))"

section \<open>The orchestrator (main)\<close>

text \<open>
  \<open>order_id = filename.replace("order_manifest_", "").replace(".xlsx", "")\<close>
\<close>

definition order_id_of_filename :: "string \<Rightarrow> string" where
  "order_id_of_filename filename = remove_all ''.xlsx'' (remove_all ''order_manifest_'' filename)"

text \<open>
  The metadata that \<open>main\<close> passes for an order that \<open>orders.json\<close> does not know.
  (The dictionary of the source has no item count and no items; nothing reads
  them.)
\<close>

definition default_meta :: order_meta where
  "default_meta =
     \<lparr> date = [], total_cost = Fin 0, total_msrp = Fin 0, total_item_count = 0,
       pallet_brands = Map.empty, items = [] \<rparr>"

text \<open>One turn of the loop over the manifest files, and the loop.\<close>

definition parse_file ::
  "(rat \<Rightarrow> string) \<Rightarrow> (string \<rightharpoonup> order_meta) \<Rightarrow> string \<times> sheet list option
     \<Rightarrow> error + manifest_record list" where
  "parse_file fr orders_map file =
     (case file of (filename, wb) \<Rightarrow>
        let oid = order_id_of_filename filename;
            m = (case orders_map oid of None \<Rightarrow> default_meta | Some m' \<Rightarrow> m')
        in parse_manifest_xlsx fr wb oid m)"

definition parse_all ::
  "(rat \<Rightarrow> string) \<Rightarrow> (string \<rightharpoonup> order_meta) \<Rightarrow> (string \<times> sheet list option) list
     \<Rightarrow> error + manifest_record list" where
  "parse_all fr orders_map files = collect (parse_file fr orders_map) files"

subsection \<open>The upsert loop\<close>

text \<open>
  The loop calls two operations of the sink: \<open>cur.execute(upsert_sql, row)\<close>, which
  returns or raises, and \<open>conn.rollback()\<close>.  They are the parameters \<open>exec\<close>
  (with \<open>True\<close> for a normal return) and \<open>rb\<close>.  The state of the loop is the
  connection and the counters \<open>inserted\<close> and \<open>errors\<close>.
\<close>

definition upsert_row ::
  "('c \<Rightarrow> 'r \<Rightarrow> bool \<times> 'c) \<Rightarrow> ('c \<Rightarrow> 'c) \<Rightarrow> 'c \<times> int \<times> int \<Rightarrow> 'r \<Rightarrow> 'c \<times> int \<times> int" where
  "upsert_row exec rb st r =
     (case st of (c, inserted, errors) \<Rightarrow>
        (case exec c r of
           (True, c1) \<Rightarrow> (c1, inserted + 1, errors)
         | (False, c1) \<Rightarrow>
             (case exec (rb c1) r of
                (True, c3) \<Rightarrow> (c3, inserted + 1, errors + 1 - 1)
              | (False, c3) \<Rightarrow> (c3, inserted, errors + 1))))"

definition upsert_all ::
  "('c \<Rightarrow> 'r \<Rightarrow> bool \<times> 'c) \<Rightarrow> ('c \<Rightarrow> 'c) \<Rightarrow> 'c \<Rightarrow> 'r list \<Rightarrow> 'c \<times> int \<times> int" where
  "upsert_all exec rb c all_rows = foldl (upsert_row exec rb) (c, 0, 0) all_rows"

subsection \<open>The connection\<close>

text \<open>
  The sink is a PostgreSQL connection opened by \<open>psycopg2.connect\<close> and left in
  its default mode: statements run inside one open transaction until \<open>commit\<close> or
  \<open>rollback\<close>.  A statement that fails aborts the transaction, and every later
  statement of an aborted transaction fails too; \<open>rollback\<close> discards all that the
  transaction has written and opens a fresh one; \<open>commit\<close> of an aborted
  transaction discards as well.  The loop above sets no savepoint and commits
  once, after its last row.  \<open>rejects\<close> says which rows the table refuses.
\<close>

record 'r conn =
  committed :: "'r list"
  pending :: "'r list"
  aborted :: bool

definition tx_execute :: "('r \<Rightarrow> bool) \<Rightarrow> 'r conn \<Rightarrow> 'r \<Rightarrow> bool \<times> 'r conn" where
  "tx_execute rejects c r =
     (if aborted c \<or> rejects r then (False, c\<lparr>aborted := True\<rparr>)
      else (True, c\<lparr>pending := pending c @ [r]\<rparr>))"

definition tx_rollback :: "'r conn \<Rightarrow> 'r conn" where
  "tx_rollback c = c\<lparr>pending := [], aborted := False\<rparr>"

definition tx_commit :: "'r conn \<Rightarrow> 'r conn" where
  "tx_commit c =
     (if aborted c then tx_rollback c
      else c\<lparr>committed := committed c @ pending c, pending := []\<rparr>)"

text \<open>
  The column widths of \<open>CREATE_TABLE_SQL\<close>: a text longer than its
  \<open>VARCHAR\<close> column, or a quantity outside \<open>INTEGER\<close>, is refused.  (The
  database cuts an excess that consists of blanks only; the example below has
  none.)
\<close>

definition violates_schema :: "manifest_record \<Rightarrow> bool" where
  "violates_schema r =
     (length (order_id r) > 20 \<or> length (listing_id r) > 20 \<or> length (category r) > 255
      \<or> length (upc r) > 20 \<or> length (asin r) > 20 \<or> length (order_date r) > 50
      \<or> length (line_item_brands r) > 500
      \<or> quantity r < - 2147483648 \<or> quantity r > 2147483647)"

text \<open>The loop on this connection, followed by \<open>conn.commit()\<close>.\<close>

definition sync_rows :: "('r \<Rightarrow> bool) \<Rightarrow> 'r conn \<Rightarrow> 'r list \<Rightarrow> 'r conn \<times> int \<times> int" where
  "sync_rows rejects c all_rows =
     (case upsert_all (tx_execute rejects) tx_rollback c all_rows of
        (c', inserted, errors) \<Rightarrow> (tx_commit c', inserted, errors))"

subsection \<open>Notions of the specification\<close>

text \<open>
  A cell is absent for \<open>get_val\<close> when its column is not mapped, when the row is
  too short to hold it, or when it is \<open>None\<close>: the cases in which \<open>get_val\<close>
  returns the default.
\<close>

definition cell_absent :: "(string \<rightharpoonup> nat) \<Rightarrow> row \<Rightarrow> string \<Rightarrow> bool" where
  "cell_absent col_map r key =
     (case col_map key of None \<Rightarrow> True | Some idx \<Rightarrow> idx \<ge> length r \<or> r ! idx = CNone)"


subsection \<open>Example data\<close>

text \<open>A sheet with a title line, a header row and the given data rows.\<close>

definition ex_header :: row where
  "ex_header =
     [CStr ''Listing ID'', CStr ''Product Name'', CStr ''UPC'', CStr ''Quantity'',
      CStr ''Orig. Retail'', CStr ''Total Orig. Retail'']"

definition ex_sheet :: "row list \<Rightarrow> sheet" where
  "ex_sheet data_rows = [CStr ''Order manifest''] # ex_header # data_rows"

text \<open>
  Data rows for the header above: a row without total, a row with an explicit
  total of 0, a row whose unit price is the text \<open>nan\<close>, a row with a negative
  quantity, a row with a negative unit price, a row that repeats the header, and
  a row without product name.
\<close>

definition ex_row :: row where
  "ex_row = [CStr ''L1'', CStr ''Vacuum'', CStr ''N/A'', CInt 3, CInt 10, CNone]"

definition ex_row_zero_total :: row where
  "ex_row_zero_total = [CStr ''L1'', CStr ''Mop'', CStr ''0 12345-67890 5'', CInt 2, CInt 5, CInt 0]"

definition ex_row_nan :: row where
  "ex_row_nan = [CStr ''L1'', CStr ''Fan'', CStr ''012345678905'', CInt 1, CStr ''nan'', CNone]"

definition ex_row_negative_quantity :: row where
  "ex_row_negative_quantity = [CStr ''L1'', CStr ''Return'', CNone, CInt (- 3), CInt 10, CInt 30]"

definition ex_row_negative_price :: row where
  "ex_row_negative_price = [CStr ''L1'', CStr ''Credit'', CNone, CInt 2, CInt (- 5), CNone]"

definition ex_row_header_again :: row where
  "ex_row_header_again = [CStr ''L1'', CStr '' Product NAME '', CStr ''012345678905'', CInt 1, CInt 10, CInt 10]"

definition ex_row_no_name :: row where
  "ex_row_no_name = [CStr ''L1'', CStr ''  '', CStr ''012345678905'', CInt 1, CInt 10, CInt 10]"

text \<open>
  An order whose two items both list the pallet \<open>P2\<close>, and a data row whose UPC
  cell holds a remark of 25 characters.
\<close>

definition ex_order :: json_order where
  "ex_order =
     \<lparr> jo_order_id = ''1001'', jo_date = ''2024-05-01'',
       jo_items =
         [\<lparr> price = Fin 40, msrp = Fin 150, item_count = 3,
             title = ''Vacuums & Floorcare - iRobot, BISSELL, Shark - Orig. Retail $28,292'',
             pallet_ids = [''P1'', ''P2''] \<rparr>,
          \<lparr> price = Fin 10, msrp = Fin 50, item_count = 1,
             title = ''Mixed lot'', pallet_ids = [''P2''] \<rparr>] \<rparr>"

definition ex_row_long_upc :: row where
  "ex_row_long_upc =
     [CStr ''L1'', CStr ''Blender'', CStr ''see attached packing list'', CInt 1, CInt 20, CInt 20]"

definition new_conn :: "'r conn" where
  "new_conn = \<lparr> committed = [], pending = [], aborted = False \<rparr>"

text \<open>An order of cost 50 and list price 200, with one pallet.\<close>

definition ex_meta :: order_meta where
  "ex_meta =
     \<lparr> date = ''2024-05-01'', total_cost = Fin 50, total_msrp = Fin 200, total_item_count = 4,
       pallet_brands = [''L1'' \<mapsto> ''Shark''], items = [] \<rparr>"

subsection \<open>A float printer for the examples\<close>

text \<open>
  The positional printing of a finite value, with up to 17 digits after the
  point.  The statements below hold for every printer \<open>fr\<close>; the examples are
  evaluated with this one.
\<close>

fun frac_digits :: "nat \<Rightarrow> rat \<Rightarrow> string" where
  "frac_digits 0 f = []"
| "frac_digits (Suc k) f =
     (if f = 0 then []
      else digit_char (nat \<lfloor>f * 10\<rfloor>) # frac_digits k (f * 10 - of_int \<lfloor>f * 10\<rfloor>))"

definition positional_repr :: "rat \<Rightarrow> string" where
  "positional_repr x =
     (if x < 0 then ''-'' else []) @ str_nat (nat \<lfloor>\<bar>x\<bar>\<rfloor>) @ ''.''
       @ frac_digits 17 (\<bar>x\<bar> - of_int \<lfloor>\<bar>x\<bar>\<rfloor>)"

section \<open>Properties of the text operations\<close>

lemma digit_not_space: "is_digit c \<Longrightarrow> \<not> is_space c"
  by (auto simp: is_digit_def is_space_def)

lemma is_digit_zero: "is_digit CHR ''0''"
  by (simp add: is_digit_def)

lemma not_is_digit_dot: "\<not> is_digit CHR ''.''"
  by (simp add: is_digit_def)

lemma strip_Nil [simp]: "strip [] = []"
  by (simp add: strip_def)

lemma set_strip: "set (strip s) \<subseteq> set s"
  by (auto simp: strip_def dest!: set_dropWhileD)

lemma strip_no_space:
  "s \<noteq> [] \<Longrightarrow> \<not> is_space (hd s) \<Longrightarrow> \<not> is_space (last s) \<Longrightarrow> strip s = s"
  unfolding strip_def
  by (cases s) (auto simp: dropWhile_eq_self_iff hd_rev split: if_splits)

lemma rev_dropWhile_rev_prefix: "prefix (rev (dropWhile P (rev a))) a"
  by (metis prefixI rev_append rev_rev_ident takeWhile_dropWhile_id)

lemma dropWhile_prefix_keep:
  assumes "dropWhile P a = a" "prefix b a"
  shows "dropWhile P b = b"
proof (cases b)
  case Nil
  then show ?thesis by simp
next
  case (Cons x xs)
  with assms(2) obtain ys where "a = x # ys"
    by (auto simp: prefix_def)
  with assms(1) have "\<not> P x"
    by (metis dropWhile_eq_self_iff list.sel(1) list.simps(3))
  with Cons show ?thesis by simp
qed

lemma strip_strip: "strip (strip s) = strip s"
proof -
  define a where "a = dropWhile is_space s"
  define b where "b = rev (dropWhile is_space (rev a))"
  have 1: "dropWhile is_space a = a"
    by (simp add: a_def)
  have 2: "dropWhile is_space b = b"
    using dropWhile_prefix_keep[OF 1 rev_dropWhile_rev_prefix] by (simp add: b_def)
  have 3: "dropWhile is_space (rev b) = rev b"
    by (simp add: b_def)
  show ?thesis
    unfolding strip_def a_def[symmetric] b_def[symmetric] by (simp add: 2 3)
qed

lemma strip_digits: "\<forall>c\<in>set d. is_digit c \<Longrightarrow> strip d = d"
  by (cases "d = []") (auto intro!: strip_no_space digit_not_space)

lemma digits_only_all: "\<forall>c\<in>set (digits_only s). is_digit c"
  by (simp add: digits_only_def)

lemma digits_only_id: "\<forall>c\<in>set d. is_digit c \<Longrightarrow> digits_only d = d"
  by (simp add: digits_only_def)

lemma digits_only_strip: "digits_only u = [] \<Longrightarrow> digits_only (strip u) = []"
  using set_strip[of u] by (auto simp: digits_only_def filter_empty_conv)

section \<open>UPC cleaning\<close>

lemma endswith_dot_zero_set:
  "endswith u ''.0'' \<Longrightarrow> CHR ''0'' \<in> set u \<and> CHR ''.'' \<in> set u"
  by (auto simp: endswith_def suffix_def)

lemma no_digit_drop_dot_zero: "digits_only u = [] \<Longrightarrow> drop_dot_zero u = u"
  using endswith_dot_zero_set[of u] is_digit_zero
  by (auto simp: drop_dot_zero_def digits_only_def filter_empty_conv)

lemma all_digit_drop_dot_zero: "\<forall>c\<in>set d. is_digit c \<Longrightarrow> drop_dot_zero d = d"
  using endswith_dot_zero_set[of d] not_is_digit_dot
  by (auto simp: drop_dot_zero_def)

lemma clean_upc_cases:
  "clean_upc x =
     (if digits_only (drop_dot_zero x) \<noteq> [] then digits_only (drop_dot_zero x)
      else drop_dot_zero x)"
  by (auto simp: clean_upc_def Let_def)

lemma clean_upc_no_digit: "digits_only u = [] \<Longrightarrow> clean_upc u = u"
  by (simp add: clean_upc_cases no_digit_drop_dot_zero)

lemma clean_upc_all_digit: "\<forall>c\<in>set d. is_digit c \<Longrightarrow> clean_upc d = d"
  by (simp add: clean_upc_cases all_digit_drop_dot_zero digits_only_id)

lemma upc_text_CStr: "upc_text fr (CStr s) = strip s"
  by (simp add: upc_text_def)

lemma upc_of_cell_CStr:
  "upc_of_cell fr (CStr s) =
     (if digits_only (drop_dot_zero (strip s)) \<noteq> [] then digits_only (drop_dot_zero (strip s))
      else drop_dot_zero (strip s))"
  by (simp add: upc_of_cell_def upc_text_CStr clean_upc_cases)

lemma clean_twice_strip:
  "upc_of_cell fr (CStr (upc_of_cell fr (CStr s))) = strip (upc_of_cell fr (CStr s))"
proof (cases "digits_only (drop_dot_zero (strip s)) = []")
  case True
  then have c: "upc_of_cell fr (CStr s) = drop_dot_zero (strip s)"
    by (simp add: upc_of_cell_CStr)
  show ?thesis
    unfolding c unfolding upc_of_cell_def upc_text_CStr
    by (rule clean_upc_no_digit) (rule digits_only_strip[OF True])
next
  case False
  then have c: "upc_of_cell fr (CStr s) = digits_only (drop_dot_zero (strip s))"
    by (simp add: upc_of_cell_CStr)
  show ?thesis
    unfolding c unfolding upc_of_cell_def upc_text_CStr
    by (simp add: strip_digits digits_only_all clean_upc_all_digit)
qed

text \<open>
  C4, as stated: cleaning a cleaned UPC gives the same value, for every text.
  It fails on the text \<open>x .0\<close>: the first cleaning removes the \<open>.0\<close> and keeps
  \<open>x\<close> with the blank that stood before the point (no digit remains, so the text
  is kept), the second cleaning trims that blank.
\<close>

theorem upc_cleaning_not_idempotent:
  "upc_of_cell positional_repr (CStr (upc_of_cell positional_repr (CStr ''x .0'')))
     \<noteq> upc_of_cell positional_repr (CStr ''x .0'')"
  by code_simp

text \<open>
  C4, amended: cleaning a cleaned UPC gives the cleaned UPC trimmed.  It is the
  same value whenever a digit remains after the trim and the removal of a trailing
  \<open>.0\<close>, and whenever the trimmed text does not end in \<open>.0\<close>.
\<close>

theorem upc_cleaning_twice:
  "upc_of_cell fr (CStr (upc_of_cell fr (CStr s))) = strip (upc_of_cell fr (CStr s))
   \<and> (digits_only (drop_dot_zero (strip s)) \<noteq> [] \<or> \<not> endswith (strip s) ''.0''
        \<longrightarrow> upc_of_cell fr (CStr (upc_of_cell fr (CStr s))) = upc_of_cell fr (CStr s))"
proof (intro conjI impI)
  show "upc_of_cell fr (CStr (upc_of_cell fr (CStr s))) = strip (upc_of_cell fr (CStr s))"
    by (rule clean_twice_strip)
next
  assume h: "digits_only (drop_dot_zero (strip s)) \<noteq> [] \<or> \<not> endswith (strip s) ''.0''"
  have "strip (upc_of_cell fr (CStr s)) = upc_of_cell fr (CStr s)"
  proof (cases "digits_only (drop_dot_zero (strip s)) \<noteq> []")
    case True
    then show ?thesis
      by (simp add: upc_of_cell_CStr strip_digits digits_only_all)
  next
    case False
    with h have "drop_dot_zero (strip s) = strip s"
      by (simp add: drop_dot_zero_def)
    with False show ?thesis
      by (simp add: upc_of_cell_CStr strip_strip)
  qed
  then show "upc_of_cell fr (CStr (upc_of_cell fr (CStr s))) = upc_of_cell fr (CStr s)"
    by (simp add: clean_twice_strip)
qed

theorem upc_cleaning_twice_witness:
  "digits_only (drop_dot_zero (strip '' 12345678901.0'')) \<noteq> []
   \<and> upc_of_cell positional_repr (CStr '' 12345678901.0'') = ''12345678901''
   \<and> upc_of_cell positional_repr (CStr (upc_of_cell positional_repr (CStr '' 12345678901.0'')))
       = upc_of_cell positional_repr (CStr '' 12345678901.0'')"
proof -
  have h: "digits_only (drop_dot_zero (strip '' 12345678901.0'')) \<noteq> []"
    by code_simp
  have v: "upc_of_cell positional_repr (CStr '' 12345678901.0'') = ''12345678901''"
    by code_simp
  from upc_cleaning_twice[of positional_repr "'' 12345678901.0''"] h v show ?thesis
    by blast
qed

section \<open>Properties of the parser\<close>

lemma catching_py_float: "\<exists>u. catching (py_float v) d = Inr u"
  by (cases v) (auto simp: catching_def split: option.splits)

lemma parse_row_Some:
  assumes "parse_row fr cm oid m ratio r = Inr (Some x)"
  shows "\<not> is_blank_row fr r"
    and "product_name x = strip (str_cell fr (get_val cm r ''product_name'' (CStr [])))"
    and "product_name x \<noteq> []"
    and "lower (product_name x) \<noteq> ''product name''"
    and "upc x = upc_of_cell fr (get_val cm r ''upc'' (CStr []))"
    and "order_id x = oid"
    and "quantity_of (get_val cm r ''quantity'' (CInt 1)) = Inr (quantity x)"
    and "unit_retail_of (get_val cm r ''unit_retail'' (CInt 0)) = Inr (unit_retail x)"
    and "total_retail_of (get_val cm r ''total_retail'' (CInt 0)) (unit_retail x) (quantity x)
           = Inr (total_retail x)"
    and "allocated_cogs_per_unit x = fmul (unit_retail x) ratio"
  using assms
  unfolding parse_row_def Let_def
  by (auto split: if_splits sum.splits)

lemma collect_mem:
  "collect f xs = Inr ys \<Longrightarrow> y \<in> set ys \<Longrightarrow> \<exists>x\<in>set xs. \<exists>zs. f x = Inr zs \<and> y \<in> set zs"
  by (induction xs arbitrary: ys) (auto split: sum.splits)

lemma collect_error:
  "collect f xs = Inl e \<Longrightarrow> \<exists>x\<in>set xs. f x = Inl e"
  by (induction xs) (auto split: sum.splits)

lemma row_records_mem:
  "row_records fr cm oid m ratio r = Inr zs \<Longrightarrow> x \<in> set zs
     \<Longrightarrow> parse_row fr cm oid m ratio r = Inr (Some x)"
  by (auto simp: row_records_def split: sum.splits option.splits)

lemma parse_sheet_mem:
  assumes "parse_sheet fr oid m ratio sh = Inr ys" "x \<in> set ys"
  shows "\<exists>hi hr r. find_header fr sh = Some (hi, hr) \<and> r \<in> set (drop (hi + 1) sh)
           \<and> parse_row fr (build_col_map hr) oid m ratio r = Inr (Some x)"
proof -
  from assms obtain hi hr where
    h: "find_header fr sh = Some (hi, hr)" and
    c: "collect (row_records fr (build_col_map hr) oid m ratio) (drop (hi + 1) sh) = Inr ys"
    by (auto simp: parse_sheet_def split: if_splits option.splits)
  from collect_mem[OF c assms(2)] obtain r zs where
    "r \<in> set (drop (hi + 1) sh)" "row_records fr (build_col_map hr) oid m ratio r = Inr zs" "x \<in> set zs"
    by blast
  with h show ?thesis
    by (blast dest: row_records_mem)
qed

lemma parse_manifest_mem:
  assumes "parse_manifest_xlsx fr wb oid m = Inr ys" "x \<in> set ys"
  shows "\<exists>sheets ratio sh hi hr r.
           wb = Some sheets \<and> cogs_ratio m = Inr ratio \<and> sh \<in> set sheets
           \<and> find_header fr sh = Some (hi, hr) \<and> r \<in> set (drop (hi + 1) sh)
           \<and> parse_row fr (build_col_map hr) oid m ratio r = Inr (Some x)"
proof -
  from assms obtain sheets ratio where
    w: "wb = Some sheets" and q: "cogs_ratio m = Inr ratio" and
    c: "collect (parse_sheet fr oid m ratio) sheets = Inr ys"
    by (auto simp: parse_manifest_xlsx_def split: option.splits sum.splits)
  from collect_mem[OF c assms(2)] obtain sh zs where
    s: "sh \<in> set sheets" "parse_sheet fr oid m ratio sh = Inr zs" "x \<in> set zs"
    by blast
  from parse_sheet_mem[OF s(2,3)] w q s(1) show ?thesis
    by blast
qed

lemma cogs_ratio_total: "\<exists>ratio. cogs_ratio m = Inr ratio"
proof (cases "fgt (total_msrp m) (Fin 0)")
  case True
  then have "total_msrp m \<noteq> Fin 0"
    by auto
  then have "\<exists>ratio. fdiv (total_cost m) (total_msrp m) = Inr ratio"
    by (cases "total_msrp m"; cases "total_cost m") auto
  with True show ?thesis
    by (simp add: cogs_ratio_def)
next
  case False
  then show ?thesis
    by (simp add: cogs_ratio_def)
qed

lemma quantity_of_error: "quantity_of v = Inl e \<Longrightarrow> e = OverflowError"
  by (cases v; cases "py_float v")
     (auto simp: quantity_of_def catching_def elim!: py_int.elims split: option.splits if_splits sum.splits)

lemma parse_row_error: "parse_row fr cm oid m ratio r = Inl e \<Longrightarrow> e = OverflowError"
proof -
  assume a: "parse_row fr cm oid m ratio r = Inl e"
  obtain u where u: "unit_retail_of (get_val cm r ''unit_retail'' (CInt 0)) = Inr u"
    using catching_py_float by (auto simp: unit_retail_of_def)
  have t: "total_retail_of (get_val cm r ''total_retail'' (CInt 0)) u q \<noteq> Inl e" for q
  proof -
    obtain t0 where "catching (py_float (get_val cm r ''total_retail'' (CInt 0))) (fmul u (Fin (of_int q))) = Inr t0"
      using catching_py_float by blast
    then show ?thesis
      by (simp add: total_retail_of_def)
  qed
  from a u have "quantity_of (get_val cm r ''quantity'' (CInt 1)) = Inl e
      \<or> (\<exists>q. total_retail_of (get_val cm r ''total_retail'' (CInt 0)) u q = Inl e)"
    unfolding parse_row_def Let_def
    by (auto split: if_splits sum.splits)
  with t show ?thesis
    by (auto dest: quantity_of_error)
qed

lemma parse_manifest_error: "parse_manifest_xlsx fr wb oid m = Inl e \<Longrightarrow> e = OverflowError"
proof -
  assume a: "parse_manifest_xlsx fr wb oid m = Inl e"
  obtain ratio where q: "cogs_ratio m = Inr ratio"
    using cogs_ratio_total by blast
  from a q obtain sheets where "collect (parse_sheet fr oid m ratio) sheets = Inl e"
    by (auto simp: parse_manifest_xlsx_def split: option.splits)
  then obtain sh where "parse_sheet fr oid m ratio sh = Inl e"
    by (blast dest: collect_error)
  then obtain cm rs where "collect (row_records fr cm oid m ratio) rs = Inl e"
    by (auto simp: parse_sheet_def split: if_splits option.splits)
  then obtain r where "row_records fr cm oid m ratio r = Inl e"
    by (blast dest: collect_error)
  then have "parse_row fr cm oid m ratio r = Inl e"
    by (auto simp: row_records_def split: sum.splits option.splits)
  then show ?thesis
    by (rule parse_row_error)
qed

section \<open>Cost allocation\<close>

lemma fmul_finite_zero: "is_finite u \<Longrightarrow> fmul u (Fin 0) = Fin 0"
  by (cases u) auto

text \<open>
  C1, as stated: every record of an order whose \<open>total_msrp\<close> is 0 has
  \<open>allocated_cogs_per_unit\<close> 0, whatever its \<open>unit_retail\<close>.  It fails on a row
  whose unit price cell holds the text \<open>nan\<close>: \<open>float\<close> reads it as NaN, the
  ratio is 0, and the product of NaN and 0 is NaN.
\<close>

theorem cogs_zero_msrp_nan_price:
  "total_msrp default_meta = Fin 0
   \<and> parse_manifest_xlsx positional_repr (Some [ex_sheet [ex_row_nan]]) ''1001'' default_meta
       = Inr [\<lparr>order_id = ''1001'', listing_id = ''L1'', listing_title = [],
               category = [], product_name = ''Fan'', upc = ''012345678905'',
               asin = [], quantity = 1, unit_retail = NaN, total_retail = Fin 0,
               order_date = [], line_item_brands = [],
               allocated_cogs_per_unit = NaN\<rparr>]
   \<and> \<not> feq NaN (Fin 0)"
  by code_simp

text \<open>
  C1, amended: parsing never raises \<open>ZeroDivisionError\<close>.  For an order whose
  \<open>total_msrp\<close> is greater than 0 the division \<open>total_cost / total_msrp\<close> succeeds
  and every record's \<open>allocated_cogs_per_unit\<close> is its \<open>unit_retail\<close> times that one
  ratio.  For an order whose \<open>total_msrp\<close> equals 0 every record with a finite
  \<open>unit_retail\<close> has \<open>allocated_cogs_per_unit\<close> 0.
\<close>

theorem cogs_allocation:
  "parse_manifest_xlsx fr wb oid m \<noteq> Inl ZeroDivisionError
   \<and> (\<forall>rows. parse_manifest_xlsx fr wb oid m = Inr rows \<longrightarrow>
         (fgt (total_msrp m) (Fin 0) \<longrightarrow>
            (\<exists>ratio. fdiv (total_cost m) (total_msrp m) = Inr ratio
               \<and> (\<forall>x\<in>set rows. allocated_cogs_per_unit x = fmul (unit_retail x) ratio)))
         \<and> (total_msrp m = Fin 0 \<longrightarrow>
            (\<forall>x\<in>set rows. is_finite (unit_retail x) \<longrightarrow> allocated_cogs_per_unit x = Fin 0)))"
proof (intro conjI allI impI ballI)
  show "parse_manifest_xlsx fr wb oid m \<noteq> Inl ZeroDivisionError"
    using parse_manifest_error by fastforce
next
  fix rows
  assume p: "parse_manifest_xlsx fr wb oid m = Inr rows" and g: "fgt (total_msrp m) (Fin 0)"
  obtain ratio where q: "cogs_ratio m = Inr ratio"
    using cogs_ratio_total by blast
  with g have d: "fdiv (total_cost m) (total_msrp m) = Inr ratio"
    by (simp add: cogs_ratio_def)
  have "allocated_cogs_per_unit x = fmul (unit_retail x) ratio" if "x \<in> set rows" for x
    using parse_manifest_mem[OF p that] q by (auto dest: parse_row_Some(10))
  with d show "\<exists>ratio. fdiv (total_cost m) (total_msrp m) = Inr ratio
      \<and> (\<forall>x\<in>set rows. allocated_cogs_per_unit x = fmul (unit_retail x) ratio)"
    by blast
next
  fix rows x
  assume p: "parse_manifest_xlsx fr wb oid m = Inr rows" and z: "total_msrp m = Fin 0"
    and x: "x \<in> set rows" and f: "is_finite (unit_retail x)"
  from z have q: "cogs_ratio m = Inr (Fin 0)"
    by (simp add: cogs_ratio_def)
  from parse_manifest_mem[OF p x] q have "allocated_cogs_per_unit x = fmul (unit_retail x) (Fin 0)"
    by (auto dest: parse_row_Some(10))
  with f show "allocated_cogs_per_unit x = Fin 0"
    by (simp add: fmul_finite_zero)
qed

theorem cogs_allocation_witness:
  "fgt (total_msrp ex_meta) (Fin 0)
   \<and> fdiv (total_cost ex_meta) (total_msrp ex_meta) = Inr (Fin (1 / 4))
   \<and> parse_manifest_xlsx positional_repr (Some [ex_sheet [ex_row]]) ''1001'' ex_meta
       = Inr [\<lparr>order_id = ''1001'', listing_id = ''L1'', listing_title = [],
               category = [], product_name = ''Vacuum'', upc = ''N/A'', asin = [],
               quantity = 3, unit_retail = Fin 10, total_retail = Fin 30,
               order_date = ''2024-05-01'', line_item_brands = ''Shark'',
               allocated_cogs_per_unit = Fin (5 / 2)\<rparr>]
   \<and> Fin (5 / 2) = fmul (Fin 10) (Fin (1 / 4))
   \<and> total_msrp default_meta = Fin 0
   \<and> parse_manifest_xlsx positional_repr (Some [ex_sheet [ex_row]]) ''1001'' default_meta
       = Inr [\<lparr>order_id = ''1001'', listing_id = ''L1'', listing_title = [],
               category = [], product_name = ''Vacuum'', upc = ''N/A'', asin = [],
               quantity = 3, unit_retail = Fin 10, total_retail = Fin 30,
               order_date = [], line_item_brands = [],
               allocated_cogs_per_unit = Fin 0\<rparr>]"
proof -
  let ?rec = "\<lparr>order_id = ''1001'', listing_id = ''L1'', listing_title = [],
               category = [], product_name = ''Vacuum'', upc = ''N/A'', asin = [],
               quantity = 3, unit_retail = Fin 10, total_retail = Fin 30,
               order_date = ''2024-05-01'', line_item_brands = ''Shark'',
               allocated_cogs_per_unit = Fin (5 / 2)\<rparr>"
  have g: "fgt (total_msrp ex_meta) (Fin 0)"
    by (simp add: ex_meta_def)
  have d: "fdiv (total_cost ex_meta) (total_msrp ex_meta) = Inr (Fin (1 / 4))"
    by (simp add: ex_meta_def)
  have r: "parse_manifest_xlsx positional_repr (Some [ex_sheet [ex_row]]) ''1001'' ex_meta = Inr [?rec]"
    by code_simp
  from cogs_allocation[of positional_repr "Some [ex_sheet [ex_row]]" "''1001''" ex_meta] r g d
  have a: "\<forall>x\<in>set [?rec]. allocated_cogs_per_unit x = fmul (unit_retail x) (Fin (1 / 4))"
    by auto
  have z: "total_msrp default_meta = Fin 0"
    by (simp add: default_meta_def)
  have r0: "parse_manifest_xlsx positional_repr (Some [ex_sheet [ex_row]]) ''1001'' default_meta
       = Inr [\<lparr>order_id = ''1001'', listing_id = ''L1'', listing_title = [],
               category = [], product_name = ''Vacuum'', upc = ''N/A'', asin = [],
               quantity = 3, unit_retail = Fin 10, total_retail = Fin 30,
               order_date = [], line_item_brands = [],
               allocated_cogs_per_unit = Fin 0\<rparr>]"
    by code_simp
  from a have e: "Fin (5 / 2) = fmul (Fin 10) (Fin (1 / 4))"
    by simp
  show ?thesis
    by (intro conjI g d r e z r0)
qed

section \<open>Numeric fields\<close>

lemma get_val_absent: "cell_absent cm r key \<Longrightarrow> get_val cm r key d = d"
  by (auto simp: cell_absent_def get_val_def split: option.splits)

lemma get_val_present:
  "\<not> cell_absent cm r key \<Longrightarrow> get_val cm r key d = r ! the (cm key) \<and> get_val cm r key d \<noteq> CNone"
  by (auto simp: cell_absent_def get_val_def split: option.splits cell.splits)

lemma fge_not_fgt_zero: "fge u (Fin 0) \<Longrightarrow> \<not> fgt u (Fin 0) \<Longrightarrow> u = Fin 0"
  by (cases u) (auto simp: fge_def)

lemma total_retail_of_cases:
  "total_retail_of v u q = Inr t \<Longrightarrow>
     ((\<exists>e. py_float v = Inl e) \<longrightarrow> t = fmul u (Fin (of_int q)))
     \<and> (py_float v = Inr (Fin 0) \<and> fgt u (Fin 0) \<longrightarrow> t = fmul u (Fin (of_int q)))
     \<and> (py_float v = Inr (Fin 0) \<and> u = Fin 0 \<longrightarrow> t = fmul u (Fin (of_int q)))
     \<and> (\<forall>f. py_float v = Inr f \<and> \<not> (feq f (Fin 0) \<and> fgt u (Fin 0)) \<longrightarrow> t = f)"
  by (cases v) (auto simp: total_retail_of_def catching_def split: option.splits if_splits)

text \<open>
  C2, as stated: whenever the total-retail cell is absent, the emitted
  \<open>total_retail\<close> is \<open>unit_retail * quantity\<close>.  It fails on a row with the unit
  price -5, the quantity 2 and no total: the absent cell is read as 0, the
  override asks for \<open>unit_retail > 0\<close>, and the record keeps 0 where the product
  is -10.
\<close>

theorem total_retail_absent_negative_price:
  "cell_absent (build_col_map (snd (the (find_header positional_repr (ex_sheet [ex_row_negative_price])))))
               ex_row_negative_price ''total_retail''
   \<and> parse_manifest_xlsx positional_repr (Some [ex_sheet [ex_row_negative_price]]) ''1001'' ex_meta
       = Inr [\<lparr>order_id = ''1001'', listing_id = ''L1'', listing_title = [],
               category = [], product_name = ''Credit'', upc = [], asin = [],
               quantity = 2, unit_retail = Fin (- 5), total_retail = Fin 0,
               order_date = ''2024-05-01'', line_item_brands = ''Shark'',
               allocated_cogs_per_unit = Fin (- (5 / 4))\<rparr>]
   \<and> fmul (Fin (- 5)) (Fin (of_int 2)) = Fin (- 10)"
  by code_simp

text \<open>
  C2, amended: for every retained row, the emitted \<open>total_retail\<close> equals
  \<open>unit_retail * quantity\<close> if the total-retail cell is absent and \<open>unit_retail\<close> is
  at least 0, or if the cell fails to parse as a float, or if it parses to exactly
  0 while \<open>unit_retail > 0\<close>.
\<close>

theorem total_retail_fallback:
  "parse_row fr cm oid m ratio r = Inr (Some x) \<longrightarrow>
     (cell_absent cm r ''total_retail'' \<and> fge (unit_retail x) (Fin 0)
      \<or> (\<exists>e. py_float (get_val cm r ''total_retail'' (CInt 0)) = Inl e)
      \<or> py_float (get_val cm r ''total_retail'' (CInt 0)) = Inr (Fin 0) \<and> fgt (unit_retail x) (Fin 0))
     \<longrightarrow> total_retail x = fmul (unit_retail x) (Fin (of_int (quantity x)))"
proof (intro impI)
  assume p: "parse_row fr cm oid m ratio r = Inr (Some x)"
  let ?v = "get_val cm r ''total_retail'' (CInt 0)"
  assume h: "cell_absent cm r ''total_retail'' \<and> fge (unit_retail x) (Fin 0)
      \<or> (\<exists>e. py_float ?v = Inl e)
      \<or> py_float ?v = Inr (Fin 0) \<and> fgt (unit_retail x) (Fin 0)"
  note t = total_retail_of_cases[OF parse_row_Some(9)[OF p]]
  from h consider
      (absent) "cell_absent cm r ''total_retail''" "fge (unit_retail x) (Fin 0)"
    | (fails) "\<exists>e. py_float ?v = Inl e"
    | (zero) "py_float ?v = Inr (Fin 0)" "fgt (unit_retail x) (Fin 0)"
    by blast
  then show "total_retail x = fmul (unit_retail x) (Fin (of_int (quantity x)))"
  proof cases
    case absent
    then have v: "py_float ?v = Inr (Fin 0)"
      by (simp add: get_val_absent)
    show ?thesis
    proof (cases "fgt (unit_retail x) (Fin 0)")
      case True
      with v t show ?thesis by blast
    next
      case False
      with absent(2) have "unit_retail x = Fin 0"
        by (rule fge_not_fgt_zero)
      with v t show ?thesis by blast
    qed
  next
    case fails
    with t show ?thesis by blast
  next
    case zero
    with t show ?thesis by blast
  qed
qed

theorem total_retail_fallback_witness:
  "cell_absent (build_col_map (snd (the (find_header positional_repr (ex_sheet [ex_row]))))) ex_row ''total_retail''
   \<and> parse_row positional_repr (build_col_map (snd (the (find_header positional_repr (ex_sheet [ex_row])))))
        ''1001'' ex_meta (Fin (1 / 4)) ex_row
       = Inr (Some \<lparr>order_id = ''1001'', listing_id = ''L1'', listing_title = [],
               category = [], product_name = ''Vacuum'', upc = ''N/A'', asin = [],
               quantity = 3, unit_retail = Fin 10, total_retail = Fin 30,
               order_date = ''2024-05-01'', line_item_brands = ''Shark'',
               allocated_cogs_per_unit = Fin (5 / 2)\<rparr>)
   \<and> Fin 30 = fmul (Fin 10) (Fin (of_int 3))
   \<and> py_float (get_val (build_col_map (snd (the (find_header positional_repr (ex_sheet [ex_row_zero_total])))))
                  ex_row_zero_total ''total_retail'' (CInt 0)) = Inr (Fin 0)
   \<and> parse_row positional_repr (build_col_map (snd (the (find_header positional_repr (ex_sheet [ex_row_zero_total])))))
        ''1001'' ex_meta (Fin (1 / 4)) ex_row_zero_total
       = Inr (Some \<lparr>order_id = ''1001'', listing_id = ''L1'', listing_title = [],
               category = [], product_name = ''Mop'', upc = ''012345678905'',
               asin = [], quantity = 2, unit_retail = Fin 5,
               total_retail = Fin 10, order_date = ''2024-05-01'',
               line_item_brands = ''Shark'',
               allocated_cogs_per_unit = Fin (5 / 4)\<rparr>)
   \<and> Fin 10 = fmul (Fin 5) (Fin (of_int 2))"
proof -
  let ?cm = "build_col_map (snd (the (find_header positional_repr (ex_sheet [ex_row]))))"
  let ?cz = "build_col_map (snd (the (find_header positional_repr (ex_sheet [ex_row_zero_total]))))"
  let ?x = "\<lparr>order_id = ''1001'', listing_id = ''L1'', listing_title = [],
               category = [], product_name = ''Vacuum'', upc = ''N/A'', asin = [],
               quantity = 3, unit_retail = Fin 10, total_retail = Fin 30,
               order_date = ''2024-05-01'', line_item_brands = ''Shark'',
               allocated_cogs_per_unit = Fin (5 / 2)\<rparr>"
  let ?y = "\<lparr>order_id = ''1001'', listing_id = ''L1'', listing_title = [],
               category = [], product_name = ''Mop'', upc = ''012345678905'',
               asin = [], quantity = 2, unit_retail = Fin 5,
               total_retail = Fin 10, order_date = ''2024-05-01'',
               line_item_brands = ''Shark'',
               allocated_cogs_per_unit = Fin (5 / 4)\<rparr>"
  have a: "cell_absent ?cm ex_row ''total_retail''"
    by code_simp
  have p: "parse_row positional_repr ?cm ''1001'' ex_meta (Fin (1 / 4)) ex_row = Inr (Some ?x)"
    by code_simp
  have g: "fge (unit_retail ?x) (Fin 0)"
    by (simp add: fge_def)
  from total_retail_fallback[of positional_repr ?cm "''1001''" ex_meta "Fin (1 / 4)" ex_row ?x] p a g
  have e: "Fin 30 = fmul (Fin 10) (Fin (of_int 3))"
    by simp
  have z: "py_float (get_val ?cz ex_row_zero_total ''total_retail'' (CInt 0)) = Inr (Fin 0)"
    by code_simp
  have p0: "parse_row positional_repr ?cz ''1001'' ex_meta (Fin (1 / 4)) ex_row_zero_total = Inr (Some ?y)"
    by code_simp
  have g0: "fgt (unit_retail ?y) (Fin 0)"
    by simp
  from total_retail_fallback[of positional_repr ?cz "''1001''" ex_meta "Fin (1 / 4)" ex_row_zero_total ?y] p0 z g0
  have e0: "Fin 10 = fmul (Fin 5) (Fin (of_int 2))"
    by simp
  show ?thesis
    by (intro conjI a p e z p0 e0)
qed

lemma py_float_error: "py_float v = Inl e \<Longrightarrow> e = ValueError \<or> e = TypeError"
  by (cases v) (auto split: option.splits)

lemma quantity_of_cases:
  "quantity_of v = Inr q \<Longrightarrow>
     ((\<exists>e. py_float v = Inl e) \<longrightarrow> q = 1)
     \<and> (\<forall>f. py_float v = Inr f \<longrightarrow> f = NaN \<and> q = 1 \<or> (\<exists>a. f = Fin a \<and> q = trunc a))"
proof (cases "py_float v")
  case (Inl e)
  assume "quantity_of v = Inr q"
  with Inl py_float_error[OF Inl] show ?thesis
    by (auto simp: quantity_of_def catching_def)
next
  case (Inr f)
  assume "quantity_of v = Inr q"
  with Inr show ?thesis
    by (cases f) (auto simp: quantity_of_def catching_def)
qed

lemma unit_retail_of_cases:
  "unit_retail_of v = Inr u \<Longrightarrow>
     ((\<exists>e. py_float v = Inl e) \<longrightarrow> u = Fin 0) \<and> (\<forall>f. py_float v = Inr f \<longrightarrow> u = f)"
  using py_float_error[of v]
  by (cases "py_float v") (auto simp: unit_retail_of_def catching_def)

lemma trunc_nonneg: "0 \<le> a \<Longrightarrow> 0 \<le> trunc a"
  by (simp add: trunc_def)

lemma fge_Fin_zero: "fge (Fin a) (Fin 0) \<longleftrightarrow> 0 \<le> a"
  by (auto simp: fge_def)

lemma fmul_nonneg:
  "is_finite u \<Longrightarrow> fge u (Fin 0) \<Longrightarrow> 0 \<le> q \<Longrightarrow> fge (fmul u (Fin (of_int q))) (Fin 0)"
  by (cases u) (auto simp: fge_Fin_zero)

text \<open>
  C7, as stated: every emitted record has a quantity of at least 0.  It fails on
  a row whose quantity cell holds -3: the value is converted and truncated, never
  compared with 0.
\<close>

theorem negative_quantity_emitted:
  "parse_manifest_xlsx positional_repr (Some [ex_sheet [ex_row_negative_quantity]]) ''1001'' ex_meta
     = Inr [\<lparr>order_id = ''1001'', listing_id = ''L1'', listing_title = [],
             category = [], product_name = ''Return'', upc = [], asin = [],
             quantity = - 3, unit_retail = Fin 10, total_retail = Fin 30,
             order_date = ''2024-05-01'', line_item_brands = ''Shark'',
             allocated_cogs_per_unit = Fin (5 / 2)\<rparr>]
   \<and> \<not> (0 :: int) \<le> - 3"
  by code_simp

text \<open>
  C7, amended: in every emitted record the quantity is an integer, and it is 1
  when the quantity cell is absent or fails to parse as a floating value; the
  \<open>unit_retail\<close> is 0.0 when its cell fails to parse.  No value is clamped: the
  quantity is at least 0 when the number in the quantity cell is, the
  \<open>unit_retail\<close> is at least 0 when the number in its cell is, and the
  \<open>total_retail\<close> is at least 0 when the number in its cell is and the quantity
  and the \<open>unit_retail\<close> are at least 0 and the \<open>unit_retail\<close> is finite.
\<close>

theorem numeric_field_bounds:
  "parse_row fr cm oid m ratio r = Inr (Some x) \<longrightarrow>
     (cell_absent cm r ''quantity'' \<or> (\<exists>e. py_float (get_val cm r ''quantity'' (CInt 1)) = Inl e)
        \<longrightarrow> quantity x = 1)
     \<and> ((\<exists>e. py_float (get_val cm r ''unit_retail'' (CInt 0)) = Inl e) \<longrightarrow> unit_retail x = Fin 0)
     \<and> ((\<forall>f. py_float (get_val cm r ''quantity'' (CInt 1)) = Inr f \<longrightarrow> fge f (Fin 0))
        \<longrightarrow> 0 \<le> quantity x)
     \<and> ((\<forall>f. py_float (get_val cm r ''unit_retail'' (CInt 0)) = Inr f \<longrightarrow> fge f (Fin 0))
        \<longrightarrow> fge (unit_retail x) (Fin 0))
     \<and> ((\<forall>f. py_float (get_val cm r ''total_retail'' (CInt 0)) = Inr f \<longrightarrow> fge f (Fin 0))
          \<and> 0 \<le> quantity x \<and> fge (unit_retail x) (Fin 0) \<and> is_finite (unit_retail x)
        \<longrightarrow> fge (total_retail x) (Fin 0))"
proof (intro impI conjI)
  assume p: "parse_row fr cm oid m ratio r = Inr (Some x)"
  note q = quantity_of_cases[OF parse_row_Some(7)[OF p]]
  note u = unit_retail_of_cases[OF parse_row_Some(8)[OF p]]
  note t = total_retail_of_cases[OF parse_row_Some(9)[OF p]]
  {
    assume "cell_absent cm r ''quantity'' \<or> (\<exists>e. py_float (get_val cm r ''quantity'' (CInt 1)) = Inl e)"
    then show "quantity x = 1"
    proof
      assume "cell_absent cm r ''quantity''"
      then have "py_float (get_val cm r ''quantity'' (CInt 1)) = Inr (Fin 1)"
        by (simp add: get_val_absent)
      with q show ?thesis
        by (auto simp: trunc_def)
    next
      assume "\<exists>e. py_float (get_val cm r ''quantity'' (CInt 1)) = Inl e"
      with q show ?thesis
        by blast
    qed
  }
  {
    assume "\<exists>e. py_float (get_val cm r ''unit_retail'' (CInt 0)) = Inl e"
    with u show "unit_retail x = Fin 0"
      by blast
  }
  {
    assume h: "\<forall>f. py_float (get_val cm r ''quantity'' (CInt 1)) = Inr f \<longrightarrow> fge f (Fin 0)"
    show "0 \<le> quantity x"
    proof (cases "py_float (get_val cm r ''quantity'' (CInt 1))")
      case (Inl e)
      with q show ?thesis by auto
    next
      case (Inr f)
      with h have "fge f (Fin 0)" by blast
      moreover from q Inr have "f = NaN \<and> quantity x = 1 \<or> (\<exists>a. f = Fin a \<and> quantity x = trunc a)"
        by blast
      ultimately show ?thesis
        by (auto simp: fge_Fin_zero trunc_nonneg)
    qed
  }
  {
    assume h: "\<forall>f. py_float (get_val cm r ''unit_retail'' (CInt 0)) = Inr f \<longrightarrow> fge f (Fin 0)"
    show "fge (unit_retail x) (Fin 0)"
    proof (cases "py_float (get_val cm r ''unit_retail'' (CInt 0))")
      case (Inl e)
      with u show ?thesis by (auto simp: fge_Fin_zero)
    next
      case (Inr f)
      with h u show ?thesis by auto
    qed
  }
  {
    assume h: "(\<forall>f. py_float (get_val cm r ''total_retail'' (CInt 0)) = Inr f \<longrightarrow> fge f (Fin 0))
          \<and> 0 \<le> quantity x \<and> fge (unit_retail x) (Fin 0) \<and> is_finite (unit_retail x)"
    then have n: "fge (fmul (unit_retail x) (Fin (of_int (quantity x)))) (Fin 0)"
      by (simp add: fmul_nonneg)
    show "fge (total_retail x) (Fin 0)"
    proof (cases "py_float (get_val cm r ''total_retail'' (CInt 0))")
      case (Inl e)
      with t n show ?thesis by auto
    next
      case (Inr f)
      with h have f: "fge f (Fin 0)" by blast
      show ?thesis
      proof (cases "feq f (Fin 0) \<and> fgt (unit_retail x) (Fin 0)")
        case True
        then have "f = Fin 0" by (cases f) auto
        with True Inr t n show ?thesis by auto
      next
        case False
        with Inr t have "total_retail x = f" by blast
        with f show ?thesis by simp
      qed
    qed
  }
qed

theorem numeric_field_bounds_witness:
  "parse_row positional_repr (build_col_map (snd (the (find_header positional_repr (ex_sheet [ex_row])))))
        ''1001'' ex_meta (Fin (1 / 4)) ex_row
       = Inr (Some \<lparr>order_id = ''1001'', listing_id = ''L1'', listing_title = [],
               category = [], product_name = ''Vacuum'', upc = ''N/A'', asin = [],
               quantity = 3, unit_retail = Fin 10, total_retail = Fin 30,
               order_date = ''2024-05-01'', line_item_brands = ''Shark'',
               allocated_cogs_per_unit = Fin (5 / 2)\<rparr>)
   \<and> py_float (get_val (build_col_map (snd (the (find_header positional_repr (ex_sheet [ex_row])))))
                  ex_row ''quantity'' (CInt 1)) = Inr (Fin 3)
   \<and> py_float (get_val (build_col_map (snd (the (find_header positional_repr (ex_sheet [ex_row])))))
                  ex_row ''unit_retail'' (CInt 0)) = Inr (Fin 10)
   \<and> py_float (get_val (build_col_map (snd (the (find_header positional_repr (ex_sheet [ex_row])))))
                  ex_row ''total_retail'' (CInt 0)) = Inr (Fin 0)
   \<and> (0 :: int) \<le> 3 \<and> fge (Fin 10) (Fin 0) \<and> fge (Fin 30) (Fin 0)"
proof -
  let ?cm = "build_col_map (snd (the (find_header positional_repr (ex_sheet [ex_row]))))"
  let ?x = "\<lparr>order_id = ''1001'', listing_id = ''L1'', listing_title = [],
               category = [], product_name = ''Vacuum'', upc = ''N/A'', asin = [],
               quantity = 3, unit_retail = Fin 10, total_retail = Fin 30,
               order_date = ''2024-05-01'', line_item_brands = ''Shark'',
               allocated_cogs_per_unit = Fin (5 / 2)\<rparr>"
  have p: "parse_row positional_repr ?cm ''1001'' ex_meta (Fin (1 / 4)) ex_row = Inr (Some ?x)"
    by code_simp
  have q: "py_float (get_val ?cm ex_row ''quantity'' (CInt 1)) = Inr (Fin 3)"
    by code_simp
  have u: "py_float (get_val ?cm ex_row ''unit_retail'' (CInt 0)) = Inr (Fin 10)"
    by code_simp
  have t: "py_float (get_val ?cm ex_row ''total_retail'' (CInt 0)) = Inr (Fin 0)"
    by code_simp
  note b = numeric_field_bounds[of positional_repr ?cm "''1001''" ex_meta "Fin (1 / 4)" ex_row ?x, rule_format, OF p]
  from b q have 1: "(0 :: int) \<le> 3"
    by (simp add: fge_Fin_zero)
  from b u have 2: "fge (Fin 10) (Fin 0)"
    by (simp add: fge_Fin_zero)
  from b t 1 2 have 3: "fge (Fin 30) (Fin 0)"
    by (simp add: fge_Fin_zero)
  show ?thesis
    by (intro conjI p q u t 1 2 3)
qed

section \<open>Row filtering and the UPC field\<close>

text \<open>
  C10: for every retained row, let \<open>t\<close> be the text of the UPC cell as the parser
  reads it (the trimmed \<open>str\<close> of the cell, the empty text for an absent or falsy
  cell) without a trailing \<open>.0\<close>.  When \<open>t\<close> holds no digit, the emitted \<open>upc\<close> is
  \<open>t\<close> itself, unchanged; when \<open>t\<close> holds a digit, the emitted \<open>upc\<close> is the digits of
  \<open>t\<close> and nothing else.
\<close>

theorem upc_passthrough:
  "parse_row fr cm oid m ratio r = Inr (Some x) \<longrightarrow>
     (digits_only (drop_dot_zero (upc_text fr (get_val cm r ''upc'' (CStr [])))) = []
        \<longrightarrow> upc x = drop_dot_zero (upc_text fr (get_val cm r ''upc'' (CStr []))))
     \<and> (digits_only (drop_dot_zero (upc_text fr (get_val cm r ''upc'' (CStr [])))) \<noteq> []
        \<longrightarrow> upc x = digits_only (drop_dot_zero (upc_text fr (get_val cm r ''upc'' (CStr []))))
            \<and> list_all is_digit (upc x))"
proof (intro impI)
  assume p: "parse_row fr cm oid m ratio r = Inr (Some x)"
  have "upc x = clean_upc (upc_text fr (get_val cm r ''upc'' (CStr [])))"
    using parse_row_Some(5)[OF p] by (simp add: upc_of_cell_def)
  then show "(digits_only (drop_dot_zero (upc_text fr (get_val cm r ''upc'' (CStr [])))) = []
        \<longrightarrow> upc x = drop_dot_zero (upc_text fr (get_val cm r ''upc'' (CStr []))))
     \<and> (digits_only (drop_dot_zero (upc_text fr (get_val cm r ''upc'' (CStr [])))) \<noteq> []
        \<longrightarrow> upc x = digits_only (drop_dot_zero (upc_text fr (get_val cm r ''upc'' (CStr []))))
            \<and> list_all is_digit (upc x))"
    by (simp add: clean_upc_cases digits_only_def list_all_iff)
qed

theorem upc_passthrough_witness:
  "parse_row positional_repr (build_col_map (snd (the (find_header positional_repr (ex_sheet [ex_row])))))
        ''1001'' ex_meta (Fin (1 / 4)) ex_row
       = Inr (Some \<lparr>order_id = ''1001'', listing_id = ''L1'', listing_title = [],
               category = [], product_name = ''Vacuum'', upc = ''N/A'', asin = [],
               quantity = 3, unit_retail = Fin 10, total_retail = Fin 30,
               order_date = ''2024-05-01'', line_item_brands = ''Shark'',
               allocated_cogs_per_unit = Fin (5 / 2)\<rparr>)
   \<and> drop_dot_zero (upc_text positional_repr
         (get_val (build_col_map (snd (the (find_header positional_repr (ex_sheet [ex_row])))))
                  ex_row ''upc'' (CStr []))) = ''N/A''
   \<and> digits_only ''N/A'' = []
   \<and> parse_row positional_repr (build_col_map (snd (the (find_header positional_repr (ex_sheet [ex_row_zero_total])))))
        ''1001'' ex_meta (Fin (1 / 4)) ex_row_zero_total
       = Inr (Some \<lparr>order_id = ''1001'', listing_id = ''L1'', listing_title = [],
               category = [], product_name = ''Mop'', upc = ''012345678905'',
               asin = [], quantity = 2, unit_retail = Fin 5,
               total_retail = Fin 10, order_date = ''2024-05-01'',
               line_item_brands = ''Shark'',
               allocated_cogs_per_unit = Fin (5 / 4)\<rparr>)
   \<and> drop_dot_zero (upc_text positional_repr
         (get_val (build_col_map (snd (the (find_header positional_repr (ex_sheet [ex_row_zero_total])))))
                  ex_row_zero_total ''upc'' (CStr []))) = ''0 12345-67890 5''
   \<and> digits_only ''0 12345-67890 5'' = ''012345678905''
   \<and> list_all is_digit ''012345678905''"
proof -
  let ?cm = "build_col_map (snd (the (find_header positional_repr (ex_sheet [ex_row]))))"
  let ?cz = "build_col_map (snd (the (find_header positional_repr (ex_sheet [ex_row_zero_total]))))"
  let ?x = "\<lparr>order_id = ''1001'', listing_id = ''L1'', listing_title = [],
               category = [], product_name = ''Vacuum'', upc = ''N/A'', asin = [],
               quantity = 3, unit_retail = Fin 10, total_retail = Fin 30,
               order_date = ''2024-05-01'', line_item_brands = ''Shark'',
               allocated_cogs_per_unit = Fin (5 / 2)\<rparr>"
  let ?y = "\<lparr>order_id = ''1001'', listing_id = ''L1'', listing_title = [],
               category = [], product_name = ''Mop'', upc = ''012345678905'',
               asin = [], quantity = 2, unit_retail = Fin 5,
               total_retail = Fin 10, order_date = ''2024-05-01'',
               line_item_brands = ''Shark'',
               allocated_cogs_per_unit = Fin (5 / 4)\<rparr>"
  have p: "parse_row positional_repr ?cm ''1001'' ex_meta (Fin (1 / 4)) ex_row = Inr (Some ?x)"
    by code_simp
  have t: "drop_dot_zero (upc_text positional_repr (get_val ?cm ex_row ''upc'' (CStr []))) = ''N/A''"
    by code_simp
  have d: "digits_only ''N/A'' = []"
    by code_simp
  have pz: "parse_row positional_repr ?cz ''1001'' ex_meta (Fin (1 / 4)) ex_row_zero_total = Inr (Some ?y)"
    by code_simp
  have tz: "drop_dot_zero (upc_text positional_repr (get_val ?cz ex_row_zero_total ''upc'' (CStr [])))
      = ''0 12345-67890 5''"
    by code_simp
  have dz: "digits_only ''0 12345-67890 5'' = ''012345678905''"
    by code_simp
  from upc_passthrough[of positional_repr ?cz "''1001''" ex_meta "Fin (1 / 4)" ex_row_zero_total ?y,
      rule_format, OF pz, unfolded tz dz]
  have l: "list_all is_digit ''012345678905''"
    by simp
  show ?thesis
    by (intro conjI p t d pz tz dz l)
qed

text \<open>
  C5: a row below the header whose product-name field is empty after trimming,
  or is \<open>product name\<close> in any case after trimming, adds no record; and no record
  that the parser returns has such a product name.
\<close>

theorem header_like_rows_skipped:
  "(strip (str_cell fr (get_val cm r ''product_name'' (CStr []))) = []
      \<or> lower (strip (str_cell fr (get_val cm r ''product_name'' (CStr [])))) = ''product name''
     \<longrightarrow> parse_row fr cm oid m ratio r = Inr None \<and> row_records fr cm oid m ratio r = Inr [])
   \<and> (\<forall>rows. parse_manifest_xlsx fr wb oid m = Inr rows \<longrightarrow>
         (\<forall>x\<in>set rows. strip (product_name x) \<noteq> []
                        \<and> lower (strip (product_name x)) \<noteq> ''product name''))"
proof (intro conjI impI allI ballI)
  assume "strip (str_cell fr (get_val cm r ''product_name'' (CStr []))) = []
      \<or> lower (strip (str_cell fr (get_val cm r ''product_name'' (CStr [])))) = ''product name''"
  then show p: "parse_row fr cm oid m ratio r = Inr None"
    by (auto simp: parse_row_def Let_def)
  then show "row_records fr cm oid m ratio r = Inr []"
    by (simp add: row_records_def)
next
  fix rows x
  assume "parse_manifest_xlsx fr wb oid m = Inr rows" "x \<in> set rows"
  from parse_manifest_mem[OF this] obtain cm' ratio' r' where
    p: "parse_row fr cm' oid m ratio' r' = Inr (Some x)"
    by blast
  have s: "strip (product_name x) = product_name x"
    by (simp add: parse_row_Some(2)[OF p] strip_strip)
  show "strip (product_name x) \<noteq> []"
    using parse_row_Some(3)[OF p] by (simp add: s)
  show "lower (strip (product_name x)) \<noteq> ''product name''"
    using parse_row_Some(4)[OF p] by (simp add: s)
qed

theorem header_like_rows_skipped_witness:
  "lower (strip (str_cell positional_repr
      (get_val (build_col_map (snd (the (find_header positional_repr (ex_sheet [ex_row_header_again])))))
               ex_row_header_again ''product_name'' (CStr [])))) = ''product name''
   \<and> row_records positional_repr
        (build_col_map (snd (the (find_header positional_repr (ex_sheet [ex_row_header_again])))))
        ''1001'' ex_meta (Fin (1 / 4)) ex_row_header_again = Inr []
   \<and> parse_manifest_xlsx positional_repr
        (Some [ex_sheet [ex_row_header_again, ex_row_no_name, ex_row]]) ''1001'' ex_meta
       = Inr [\<lparr>order_id = ''1001'', listing_id = ''L1'', listing_title = [],
               category = [], product_name = ''Vacuum'', upc = ''N/A'', asin = [],
               quantity = 3, unit_retail = Fin 10, total_retail = Fin 30,
               order_date = ''2024-05-01'', line_item_brands = ''Shark'',
               allocated_cogs_per_unit = Fin (5 / 2)\<rparr>]"
proof -
  let ?cm = "build_col_map (snd (the (find_header positional_repr (ex_sheet [ex_row_header_again]))))"
  have h: "lower (strip (str_cell positional_repr
      (get_val ?cm ex_row_header_again ''product_name'' (CStr [])))) = ''product name''"
    by code_simp
  from header_like_rows_skipped[of positional_repr ?cm ex_row_header_again "''1001''" ex_meta "Fin (1 / 4)"] h
  have r: "row_records positional_repr ?cm ''1001'' ex_meta (Fin (1 / 4)) ex_row_header_again = Inr []"
    by blast
  have e: "parse_manifest_xlsx positional_repr
        (Some [ex_sheet [ex_row_header_again, ex_row_no_name, ex_row]]) ''1001'' ex_meta
       = Inr [\<lparr>order_id = ''1001'', listing_id = ''L1'', listing_title = [],
               category = [], product_name = ''Vacuum'', upc = ''N/A'', asin = [],
               quantity = 3, unit_retail = Fin 10, total_retail = Fin 30,
               order_date = ''2024-05-01'', line_item_brands = ''Shark'',
               allocated_cogs_per_unit = Fin (5 / 2)\<rparr>]"
    by code_simp
  show ?thesis
    by (intro conjI h r e)
qed

section \<open>Header detection\<close>











section \<open>Brands of the order items\<close>

lemma foldl_upd_apply:
  "foldl (\<lambda>m p. m(p \<mapsto> v)) pb ps pid = (if pid \<in> set ps then Some v else pb pid)"
  by (induction ps arbitrary: pb) auto

lemma attach_item_apply:
  "attach_item pb item pid =
     (if pid \<in> set (pallet_ids item) then Some (brands_of_title (title item)) else pb pid)"
  by (simp add: attach_item_def foldl_upd_apply)

lemma foldl_attach_item_last:
  assumes "i < length its" "pid \<in> set (pallet_ids (its ! i))"
    and "\<forall>j. i < j \<and> j < length its \<longrightarrow> pid \<notin> set (pallet_ids (its ! j))"
  shows "foldl attach_item pb its pid = Some (brands_of_title (title (its ! i)))"
  using assms
proof (induction its rule: rev_induct)
  case Nil
  then show ?case by simp
next
  case (snoc x xs)
  show ?case
  proof (cases "i = length xs")
    case True
    with snoc.prems(2) show ?thesis
      by (simp add: attach_item_apply)
  next
    case False
    with snoc.prems(1) have i: "i < length xs"
      by simp
    from snoc.prems(3)[rule_format, of "length xs"] i have n: "pid \<notin> set (pallet_ids x)"
      by simp
    have "\<forall>j. i < j \<and> j < length xs \<longrightarrow> pid \<notin> set (pallet_ids (xs ! j))"
    proof (intro allI impI)
      fix j
      assume j: "i < j \<and> j < length xs"
      with snoc.prems(3)[rule_format, of j] show "pid \<notin> set (pallet_ids (xs ! j))"
        by (simp add: nth_append)
    qed
    with snoc.IH i snoc.prems(2) have h: "foldl attach_item pb xs pid = Some (brands_of_title (title (xs ! i)))"
      by (simp add: nth_append)
    have "foldl attach_item pb (xs @ [x]) pid = attach_item (foldl attach_item pb xs) x pid"
      by simp
    also from n have "\<dots> = foldl attach_item pb xs pid"
      by (simp only: attach_item_apply if_False)
    also note h
    finally show ?thesis
      using i by (simp add: nth_append)
  qed
qed

lemma load_orders_Some:
  "load_orders (Some orders) oid = Some m \<Longrightarrow>
     \<exists>order\<in>set orders. jo_order_id order = oid \<and> m = meta_of_order order"
proof -
  have "foldl (\<lambda>orders_map order.
                   if jo_order_id order = [] then orders_map
                   else orders_map(jo_order_id order \<mapsto> meta_of_order order)) om orders oid = Some m
        \<Longrightarrow> om oid = Some m \<or> (\<exists>order\<in>set orders. jo_order_id order = oid \<and> m = meta_of_order order)"
    for om
    by (induction orders rule: rev_induct) (auto split: if_splits)
  from this[of Map.empty] show "load_orders (Some orders) oid = Some m \<Longrightarrow>
     \<exists>order\<in>set orders. jo_order_id order = oid \<and> m = meta_of_order order"
    by (simp add: load_orders_def)
qed

text \<open>
  C6, as stated: the brand string attached to each pallet id of an item is the
  brand list of that item's title.  It fails for a pallet id that a later item of
  the same order lists again: the mapping keeps one brand per pallet id, and the
  later item overwrites it.  Here \<open>P2\<close> belongs to the vacuum item, and the mapping
  gives it the empty brand of the item \<open>Mixed lot\<close>.
\<close>

theorem shared_pallet_takes_later_brand:
  "''P2'' \<in> set (pallet_ids (jo_items ex_order ! 0))
   \<and> brands_of_title (title (jo_items ex_order ! 0)) = ''iRobot, BISSELL, Shark''
   \<and> pallet_brands (the (load_orders (Some [ex_order]) ''1001'')) ''P2'' = Some []"
  by code_simp

text \<open>
  C6, amended: the brand list of a title is the second of its \<open>" - "\<close>-separated
  parts when there are at least three parts, and the empty string otherwise (the
  vacuum title yields \<open>iRobot, BISSELL, Shark\<close>); every order metadata that
  \<open>load_orders\<close> returns is computed from one order of the file; and in it the brand
  attached to a pallet id is the brand list of the title of the last item of that
  order that lists the id.
\<close>

theorem pallet_brand_of_last_item:
  "brands_of_title t
     = (if length (split_on '' - '' t) \<ge> 3 then split_on '' - '' t ! 1 else [])
   \<and> brands_of_title ''Vacuums & Floorcare - iRobot, BISSELL, Shark - Orig. Retail $28,292''
       = ''iRobot, BISSELL, Shark''
   \<and> (\<forall>oid m. load_orders (Some orders) oid = Some m \<longrightarrow>
         (\<exists>order\<in>set orders. jo_order_id order = oid \<and> m = meta_of_order order))
   \<and> (\<forall>i pid. i < length (jo_items order) \<and> pid \<in> set (pallet_ids (jo_items order ! i))
         \<and> (\<forall>j. i < j \<and> j < length (jo_items order) \<longrightarrow> pid \<notin> set (pallet_ids (jo_items order ! j)))
         \<longrightarrow> pallet_brands (meta_of_order order) pid
               = Some (brands_of_title (title (jo_items order ! i))))"
proof (intro conjI allI impI)
  show "brands_of_title t
     = (if length (split_on '' - '' t) \<ge> 3 then split_on '' - '' t ! 1 else [])"
    by (simp add: brands_of_title_def Let_def)
  show "brands_of_title ''Vacuums & Floorcare - iRobot, BISSELL, Shark - Orig. Retail $28,292''
       = ''iRobot, BISSELL, Shark''"
    by code_simp
next
  fix oid m
  assume "load_orders (Some orders) oid = Some m"
  then show "\<exists>order\<in>set orders. jo_order_id order = oid \<and> m = meta_of_order order"
    by (rule load_orders_Some)
next
  fix i pid
  assume "i < length (jo_items order) \<and> pid \<in> set (pallet_ids (jo_items order ! i))
         \<and> (\<forall>j. i < j \<and> j < length (jo_items order) \<longrightarrow> pid \<notin> set (pallet_ids (jo_items order ! j)))"
  then show "pallet_brands (meta_of_order order) pid
               = Some (brands_of_title (title (jo_items order ! i)))"
    by (simp add: meta_of_order_def build_pallet_brands_def foldl_attach_item_last)
qed

theorem pallet_brand_of_last_item_witness:
  "load_orders (Some [ex_order]) ''1001'' = Some (meta_of_order ex_order)
   \<and> (0 :: nat) < length (jo_items ex_order)
   \<and> ''P1'' \<in> set (pallet_ids (jo_items ex_order ! 0))
   \<and> ''P1'' \<notin> set (pallet_ids (jo_items ex_order ! 1))
   \<and> length (jo_items ex_order) = 2
   \<and> pallet_brands (meta_of_order ex_order) ''P1'' = Some ''iRobot, BISSELL, Shark''"
proof -
  have l: "load_orders (Some [ex_order]) ''1001'' = Some (meta_of_order ex_order)"
    by (simp add: load_orders_def ex_order_def)
  have 0: "(0 :: nat) < length (jo_items ex_order)"
    by (simp add: ex_order_def)
  have 1: "''P1'' \<in> set (pallet_ids (jo_items ex_order ! 0))"
    by (simp add: ex_order_def)
  have 2: "''P1'' \<notin> set (pallet_ids (jo_items ex_order ! 1))"
    by (simp add: ex_order_def)
  have 3: "length (jo_items ex_order) = 2"
    by (simp add: ex_order_def)
  have 4: "\<forall>j. 0 < j \<and> j < length (jo_items ex_order) \<longrightarrow> ''P1'' \<notin> set (pallet_ids (jo_items ex_order ! j))"
  proof (intro allI impI)
    fix j :: nat
    assume "0 < j \<and> j < length (jo_items ex_order)"
    with 3 have "j = 1" by simp
    with 2 show "''P1'' \<notin> set (pallet_ids (jo_items ex_order ! j))" by simp
  qed
  have t: "brands_of_title (title (jo_items ex_order ! 0)) = ''iRobot, BISSELL, Shark''"
    by code_simp
  from pallet_brand_of_last_item[of _ _ ex_order] 0 1 4
  have "pallet_brands (meta_of_order ex_order) ''P1'' = Some (brands_of_title (title (jo_items ex_order ! 0)))"
    by blast
  then have 5: "pallet_brands (meta_of_order ex_order) ''P1'' = Some ''iRobot, BISSELL, Shark''"
    by (simp only: t)
  show ?thesis
    by (intro conjI l 0 1 2 3 5)
qed

section \<open>Order identifier of a manifest file\<close>

lemma remove_all_prefix: "old \<noteq> [] \<Longrightarrow> remove_all old (old @ s) = remove_all old s"
  by (cases old) simp_all

lemma remove_all_keeps:
  assumes "\<not> sublist old s"
    and "\<And>us. us \<noteq> [] \<Longrightarrow> prefix us rest \<Longrightarrow> strict_suffix us old \<Longrightarrow> False"
    and "remove_all old rest = rest'"
  shows "remove_all old (s @ rest) = s @ rest'"
  using assms(1)
proof (induction s)
  case Nil
  with assms(3) show ?case by simp
next
  case (Cons c cs)
  from Cons.prems have n: "\<not> prefix old (c # cs)" and r: "\<not> sublist old cs"
    by (auto simp: sublist_Cons_right)
  have "\<not> prefix old ((c # cs) @ rest)"
  proof
    assume "prefix old ((c # cs) @ rest)"
    then have "prefix old (c # cs) \<or> (\<exists>us. old = (c # cs) @ us \<and> prefix us rest)"
      by (simp only: prefix_append)
    with n obtain us where u: "old = (c # cs) @ us" "prefix us rest"
      by blast
    with n have "us \<noteq> []"
      by auto
    moreover from u(1) have "strict_suffix us old"
      by (simp add: strict_suffix_def suffix_def)
    ultimately show False
      using assms(2) u(2) by blast
  qed
  with Cons.IH[OF r] show ?case
    by simp
qed

lemma starts_with_dot:
  assumes "us \<noteq> []" "prefix us ''.xlsx''"
  shows "CHR ''.'' \<in> set us"
  using assms by (cases us) (auto simp: prefix_def)

lemma no_overlap_prefix_xlsx:
  assumes "us \<noteq> []" "prefix us ''.xlsx''" "strict_suffix us ''order_manifest_''"
  shows False
proof -
  from assms(3) have "suffix us ''order_manifest_''"
    by (simp only: strict_suffix_def)
  then have "set us \<subseteq> set ''order_manifest_''"
    by (rule set_mono_suffix)
  with starts_with_dot[OF assms(1,2)] have "CHR ''.'' \<in> set ''order_manifest_''"
    by blast
  then show False
    by simp
qed

lemma no_overlap_xlsx_xlsx:
  assumes "us \<noteq> []" "prefix us ''.xlsx''" "strict_suffix us ''.xlsx''"
  shows False
proof -
  from assms(3) have "suffix us ''xlsx''"
    by (auto simp: strict_suffix_def suffix_Cons)
  then have "set us \<subseteq> set ''xlsx''"
    by (rule set_mono_suffix)
  with starts_with_dot[OF assms(1,2)] have "CHR ''.'' \<in> set ''xlsx''"
    by blast
  then show False
    by simp
qed

lemma order_id_of_plain_filename:
  assumes "\<not> sublist ''order_manifest_'' oid" "\<not> sublist ''.xlsx'' oid"
  shows "order_id_of_filename (''order_manifest_'' @ oid @ ''.xlsx'') = oid"
proof -
  have x: "remove_all ''order_manifest_'' ''.xlsx'' = ''.xlsx''"
    by code_simp
  have 1: "remove_all ''order_manifest_'' (oid @ ''.xlsx'') = oid @ ''.xlsx''"
    using assms(1) no_overlap_prefix_xlsx x by (rule remove_all_keeps)
  have y: "remove_all ''.xlsx'' ''.xlsx'' = []"
    by code_simp
  have 2: "remove_all ''.xlsx'' (oid @ ''.xlsx'') = oid @ []"
    using assms(2) no_overlap_xlsx_xlsx y by (rule remove_all_keeps)
  have "remove_all ''order_manifest_'' (''order_manifest_'' @ oid @ ''.xlsx'')
      = remove_all ''order_manifest_'' (oid @ ''.xlsx'')"
    by (rule remove_all_prefix) simp
  with 1 2 show ?thesis
    by (simp add: order_id_of_filename_def)
qed

lemma parse_file_order_id:
  assumes "parse_file fr orders_map (filename, wb) = Inr rows" "x \<in> set rows"
  shows "order_id x = order_id_of_filename filename"
proof -
  from assms(1) obtain m where
    "parse_manifest_xlsx fr wb (order_id_of_filename filename) m = Inr rows"
    by (auto simp: parse_file_def Let_def)
  from parse_manifest_mem[OF this assms(2)] show ?thesis
    by (auto dest: parse_row_Some(6))
qed

text \<open>
  The identifier that the replacements compute is the one between the prefix and
  the suffix whenever that identifier contains neither of the two texts, and it is
  the identifier of every record parsed from the file.
\<close>

lemma order_id_of_manifest_file:
  assumes "\<not> sublist ''order_manifest_'' oid" "\<not> sublist ''.xlsx'' oid"
    and "parse_file fr orders_map (''order_manifest_'' @ oid @ ''.xlsx'', wb) = Inr rows"
    and "x \<in> set rows"
  shows "order_id x = oid"
  using parse_file_order_id[OF assms(3,4)] order_id_of_plain_filename[OF assms(1,2)]
  by simp

text \<open>
  C8: for a file named \<open>order_manifest_<order_id>.xlsx\<close> the records carry exactly
  \<open><order_id>\<close>.  The two \<open>replace\<close> calls remove every occurrence of the prefix text
  and of the suffix text, not only the leading and the trailing one: the file
  \<open>order_manifest_1001.xlsx.xlsx\<close> holds the identifier \<open>1001.xlsx\<close> between prefix
  and suffix, and its records carry \<open>1001\<close>.
\<close>

theorem order_id_of_double_extension:
  "''order_manifest_1001.xlsx.xlsx'' = ''order_manifest_'' @ ''1001.xlsx'' @ ''.xlsx''
   \<and> order_id_of_filename ''order_manifest_1001.xlsx.xlsx'' = ''1001''
   \<and> parse_file positional_repr (load_orders (Some [ex_order]))
        (''order_manifest_1001.xlsx.xlsx'', Some [ex_sheet [ex_row]])
       = Inr [\<lparr>order_id = ''1001'', listing_id = ''L1'', listing_title = [],
               category = [], product_name = ''Vacuum'', upc = ''N/A'', asin = [],
               quantity = 3, unit_retail = Fin 10, total_retail = Fin 30,
               order_date = ''2024-05-01'', line_item_brands = [],
               allocated_cogs_per_unit = Fin (5 / 2)\<rparr>]"
  by code_simp

section \<open>The upsert loop on a transactional connection\<close>

lemma upsert_row_counts:
  "upsert_row (tx_execute rejects) tx_rollback (c, inserted, errors) r = (c', inserted', errors')
     \<Longrightarrow> inserted' = inserted + (if rejects r then 0 else 1)
         \<and> errors' = errors + (if rejects r then 1 else 0)"
  by (auto simp: upsert_row_def tx_execute_def tx_rollback_def split: if_splits)

lemma foldl_upsert_counts:
  "foldl (upsert_row (tx_execute rejects) tx_rollback) (c, inserted, errors) rows
       = (c', inserted', errors')
     \<Longrightarrow> inserted' = inserted + int (length (filter (\<lambda>r. \<not> rejects r) rows))
         \<and> errors' = errors + int (length (filter rejects rows))"
proof (induction rows arbitrary: c inserted errors)
  case Nil
  then show ?case by simp
next
  case (Cons r rows)
  obtain c1 i1 e1 where s: "upsert_row (tx_execute rejects) tx_rollback (c, inserted, errors) r = (c1, i1, e1)"
    by (cases "upsert_row (tx_execute rejects) tx_rollback (c, inserted, errors) r") auto
  with Cons.prems have "foldl (upsert_row (tx_execute rejects) tx_rollback) (c1, i1, e1) rows
       = (c', inserted', errors')"
    by simp
  from Cons.IH[OF this] upsert_row_counts[OF s] show ?case
    by auto
qed

text \<open>
  The counters of the run: a row is retried once, a row counts as one error
  exactly when the table refuses it (both attempts fail), and every other row
  counts as inserted, whatever state the connection was in.
\<close>

lemma sync_rows_counts:
  "sync_rows rejects c rows = (c', inserted, errors)
     \<Longrightarrow> inserted = int (length (filter (\<lambda>r. \<not> rejects r) rows))
         \<and> errors = int (length (filter rejects rows))"
proof -
  assume a: "sync_rows rejects c rows = (c', inserted, errors)"
  obtain c1 where "foldl (upsert_row (tx_execute rejects) tx_rollback) (c, 0, 0) rows
      = (c1, inserted, errors)"
    using a by (auto simp: sync_rows_def upsert_all_def split: prod.splits)
  from foldl_upsert_counts[OF this] show ?thesis
    by simp
qed

text \<open>
  A refused row leaves the connection without any pending upsert, in an aborted
  transaction: what the earlier rows of the run had written is gone.
\<close>

lemma refused_row_discards_pending:
  "rejects r \<Longrightarrow>
     upsert_row (tx_execute rejects) tx_rollback (c, inserted, errors) r
       = (c\<lparr>pending := [], aborted := True\<rparr>, inserted, errors + 1)"
  by (simp add: upsert_row_def tx_execute_def tx_rollback_def)

text \<open>
  C9: when the sink raises on a record, the loop rolls back just that record's
  effect, retries it once, counts it as one error if the retry fails too, and
  goes on.  The retry and the counting are as the claim says (the lemma above);
  the rollback does not stay with the record.  \<open>conn.rollback()\<close> ends the one transaction that holds every
  upsert of the run so far: of the three rows below, the second has a UPC text
  longer than its column, and after the run only the third row is stored.  The
  first row, counted as inserted, was discarded by the rollback for the second.
\<close>

theorem rollback_discards_earlier_rows:
  "parse_manifest_xlsx positional_repr
       (Some [ex_sheet [ex_row, ex_row_long_upc, ex_row_zero_total]]) ''1001'' ex_meta
     = Inr [\<lparr>order_id = ''1001'', listing_id = ''L1'', listing_title = [],
             category = [], product_name = ''Vacuum'', upc = ''N/A'', asin = [],
             quantity = 3, unit_retail = Fin 10, total_retail = Fin 30,
             order_date = ''2024-05-01'', line_item_brands = ''Shark'',
             allocated_cogs_per_unit = Fin (5 / 2)\<rparr>,
            \<lparr>order_id = ''1001'', listing_id = ''L1'', listing_title = [],
             category = [], product_name = ''Blender'',
             upc = ''see attached packing list'', asin = [], quantity = 1,
             unit_retail = Fin 20, total_retail = Fin 20,
             order_date = ''2024-05-01'', line_item_brands = ''Shark'',
             allocated_cogs_per_unit = Fin 5\<rparr>,
            \<lparr>order_id = ''1001'', listing_id = ''L1'', listing_title = [],
             category = [], product_name = ''Mop'', upc = ''012345678905'',
             asin = [], quantity = 2, unit_retail = Fin 5,
             total_retail = Fin 10, order_date = ''2024-05-01'',
             line_item_brands = ''Shark'',
             allocated_cogs_per_unit = Fin (5 / 4)\<rparr>]
   \<and> sync_rows violates_schema new_conn
        [\<lparr>order_id = ''1001'', listing_id = ''L1'', listing_title = [],
             category = [], product_name = ''Vacuum'', upc = ''N/A'', asin = [],
             quantity = 3, unit_retail = Fin 10, total_retail = Fin 30,
             order_date = ''2024-05-01'', line_item_brands = ''Shark'',
             allocated_cogs_per_unit = Fin (5 / 2)\<rparr>,
            \<lparr>order_id = ''1001'', listing_id = ''L1'', listing_title = [],
             category = [], product_name = ''Blender'',
             upc = ''see attached packing list'', asin = [], quantity = 1,
             unit_retail = Fin 20, total_retail = Fin 20,
             order_date = ''2024-05-01'', line_item_brands = ''Shark'',
             allocated_cogs_per_unit = Fin 5\<rparr>,
            \<lparr>order_id = ''1001'', listing_id = ''L1'', listing_title = [],
             category = [], product_name = ''Mop'', upc = ''012345678905'',
             asin = [], quantity = 2, unit_retail = Fin 5,
             total_retail = Fin 10, order_date = ''2024-05-01'',
             line_item_brands = ''Shark'',
             allocated_cogs_per_unit = Fin (5 / 4)\<rparr>]
     = (\<lparr>committed =
           [\<lparr>order_id = ''1001'', listing_id = ''L1'', listing_title = [],
              category = [], product_name = ''Mop'', upc = ''012345678905'',
              asin = [], quantity = 2, unit_retail = Fin 5,
              total_retail = Fin 10, order_date = ''2024-05-01'',
              line_item_brands = ''Shark'',
              allocated_cogs_per_unit = Fin (5 / 4)\<rparr>],
          pending = [], aborted = False\<rparr>,
        2, 1)"
  by code_simp

end
